theory Spec2Isabelle
  imports Complex_Main
begin

section \<open>Conventions of the embedding\<close>

text \<open>
  The application is a set of TypeScript/React pages over a hosted document store.
  Each page function is embedded as a HOL function of the same name.

  \<^item> A JavaScript \<open>number\<close> holding an amount, an hour count or a rate is a \<open>real\<close>:
    the arithmetic of the model is exact, the rounding of IEEE doubles is not part of it.
    Counters and timestamps (milliseconds since the epoch) are \<open>nat\<close> and \<open>int\<close>.
  \<^item> A JavaScript string is a \<open>string\<close>; an optional field (\<open>f?: T\<close>, or a field that
    the code guards with \<open>||\<close>, \<open>?.\<close> or \<open>??\<close>) is an \<open>option\<close>.
  \<^item> An object used as a dictionary (\<open>{ [key: string]: V }\<close>) is an association list in
    insertion order with one entry per key; keys are document ids, which never collide
    with the properties of \<open>Object.prototype\<close>. (\<open>Object.entries\<close> lists keys that look
    like array indices first; nothing proved below depends on the order of the entries.)
  \<^item> Record fields carry a short prefix of their interface, since several interfaces of
    the source share field names (\<open>id\<close>, \<open>userId\<close>, \<open>clientId\<close>).
\<close>

section \<open>JavaScript helpers\<close>

text \<open>\<open>obj[k]\<close>: the value stored under a key, \<open>None\<close> for \<open>undefined\<close>.\<close>

fun obj_get :: "('k \<times> 'v) list \<Rightarrow> 'k \<Rightarrow> 'v option" where
  "obj_get [] k = None"
| "obj_get ((k', v) # kvs) k = (if k' = k then Some v else obj_get kvs k)"

text \<open>\<open>obj[k] = v\<close>: overwrite in place, or append a new key.\<close>

fun obj_set :: "('k \<times> 'v) list \<Rightarrow> 'k \<Rightarrow> 'v \<Rightarrow> ('k \<times> 'v) list" where
  "obj_set [] k v = [(k, v)]"
| "obj_set ((k', v') # kvs) k v =
     (if k' = k then (k, v) # kvs else (k', v') # obj_set kvs k v)"


section \<open>Numbers\<close>

text \<open>
  The figures of the reports are JavaScript numbers, IEEE-754 doubles: \<open>NaN\<close>, one of
  the two infinities, or a finite double. A finite double is kept as a mantissa and an
  exponent \<open>(m, e)\<close>, the number \<open>m * 2^e\<close>, where \<open>|m| < 2^53\<close>, \<open>-1074 \<le> e\<close> and
  \<open>|m| * 2^e < 2^1024\<close>. One double has several such pairs, so doubles are compared
  through their value \<open>dval\<close>. The sign of a zero is not kept: the code below only adds
  numbers and tests them for truth, and neither shows it.
\<close>

type_synonym double = "int \<times> int"

datatype jsnum = NaN | PlusInfinity | MinusInfinity | Number double

definition dval :: "double \<Rightarrow> real" where
  "dval d =
     (case d of (m, e) \<Rightarrow>
        if 0 \<le> e then real_of_int m * 2 ^ nat e else real_of_int m / 2 ^ nat (- e))"

text \<open>The literal \<open>0\<close>.\<close>

definition zero :: jsnum where
  "zero = Number (0, 0)"

text \<open>The number of binary digits of a natural number.\<close>

fun bits :: "nat \<Rightarrow> nat" where
  "bits n = (if n = 0 then 0 else Suc (bits (n div 2)))"

declare bits.simps [simp del]

text \<open>
  \<open>n / 2^k\<close> rounded to the nearest integer, a tie going to the even neighbour
  (used with \<open>1 \<le> k\<close>).
\<close>

definition roundShift :: "nat \<Rightarrow> nat \<Rightarrow> nat" where
  "roundShift n k =
     (let q = n div 2 ^ k; r = n mod 2 ^ k; half = 2 ^ (k - 1)
      in if r < half then q else if half < r then q + 1 else if even q then q else q + 1)"

text \<open>
  The double nearest to \<open>M * 2^E\<close>, for \<open>-1074 \<le> E\<close>: a mantissa of more than 53 binary
  digits is rounded to 53 digits, ties to even, and a result of \<open>2^1024\<close> or more in
  size is an infinity. (With \<open>-1074 \<le> E\<close> no result is too small for its 53 digits.)
\<close>

definition dround :: "int \<Rightarrow> int \<Rightarrow> jsnum" where
  "dround M E =
     (let n = nat \<bar>M\<bar>;
          k = bits n - 53;
          m = (if k = 0 then n else roundShift n k);
          e = E + int k
      in if m \<noteq> 0 \<and> 1024 < int (bits m) + e
         then (if M < 0 then MinusInfinity else PlusInfinity)
         else Number (if M < 0 then - int m else int m, e))"

text \<open>\<open>x + y\<close> on numbers: the exact sum of two finite doubles, rounded once.\<close>

fun js_add :: "jsnum \<Rightarrow> jsnum \<Rightarrow> jsnum" where
  "js_add NaN y = NaN"
| "js_add x NaN = NaN"
| "js_add PlusInfinity MinusInfinity = NaN"
| "js_add MinusInfinity PlusInfinity = NaN"
| "js_add PlusInfinity y = PlusInfinity"
| "js_add MinusInfinity y = MinusInfinity"
| "js_add (Number a) PlusInfinity = PlusInfinity"
| "js_add (Number a) MinusInfinity = MinusInfinity"
| "js_add (Number (m1, e1)) (Number (m2, e2)) =
     (let E = min e1 e2
      in dround (m1 * 2 ^ nat (e1 - E) + m2 * 2 ^ nat (e2 - E)) E)"

text \<open>
  \<open>x + row.field\<close> for a field that holds a number or is missing: a number plus
  \<open>undefined\<close> is \<open>NaN\<close>.
\<close>

definition plusField :: "jsnum \<Rightarrow> jsnum option \<Rightarrow> jsnum" where
  "plusField x field = (case field of None \<Rightarrow> NaN | Some y \<Rightarrow> js_add x y)"

text \<open>\<open>x || 0\<close> for \<open>x\<close> a number or \<open>undefined\<close>: \<open>undefined\<close>, \<open>NaN\<close> and zero are falsy.\<close>

definition or_zero_num :: "jsnum option \<Rightarrow> jsnum" where
  "or_zero_num x =
     (case x of
        None \<Rightarrow> zero
      | Some NaN \<Rightarrow> zero
      | Some (Number (m, e)) \<Rightarrow> (if m = 0 then zero else Number (m, e))
      | Some v \<Rightarrow> v)"

section \<open>Report data (report utilities and report components)\<close>

text \<open>
  A field that the interfaces type as \<open>number\<close> holds a number or, in a stored document
  that lacks it, \<open>undefined\<close> (\<open>None\<close>).
\<close>

record Client =
  c_id :: string
  c_name :: string

record TimeEntry =
  te_id :: string
  te_userId :: string
  te_clientId :: string
  te_hours :: "jsnum option"
  te_date :: int
  te_description :: string

record ReportInvoice =
  ri_id :: string
  ri_userId :: string
  ri_clientId :: string
  ri_amount :: "jsnum option"
  ri_status :: string
  ri_dueDate :: int
  ri_createdAt :: int

record ReportTask =
  rt_id :: string
  rt_userId :: string
  rt_clientId :: string
  rt_title :: string
  rt_status :: string
  rt_dueDate :: int
  rt_createdAt :: int

subsection \<open>Client-name lookups\<close>

text \<open>\<open>getClientNameById\<close> of the report utilities (used in the PDF header).\<close>

definition getClientNameById :: "Client list \<Rightarrow> string \<Rightarrow> string" where
  "getClientNameById clients clientId =
     (case List.find (\<lambda>c. c_id c = clientId) clients of
        Some client \<Rightarrow> c_name client
      | None \<Rightarrow> ''Unknown Client'')"

text \<open>The local \<open>getClientName\<close> of \<open>generateInvoicesHTML\<close> (PDF tables).\<close>

definition getClientName_pdf :: "Client list \<Rightarrow> string \<Rightarrow> string" where
  "getClientName_pdf clients clientId =
     (case List.find (\<lambda>c. c_id c = clientId) clients of
        Some client \<Rightarrow> c_name client
      | None \<Rightarrow> ''Unknown'')"

text \<open>\<open>getClientName\<close> of the \<open>TimeTrackingReport\<close> component.\<close>

definition getClientName_report :: "Client list \<Rightarrow> string \<Rightarrow> string" where
  "getClientName_report clients clientId =
     (case List.find (\<lambda>c. c_id c = clientId) clients of
        Some client \<Rightarrow> c_name client
      | None \<Rightarrow> ''Unknown Client'')"

subsection \<open>Grouping by client\<close>

record TimeReport =
  totalHours :: jsnum
  hoursByClient :: "(string \<times> jsnum) list"

text \<open>
  \<open>calculateReport\<close> of \<open>TimeTrackingReport\<close>: a \<open>reduce\<close> for the total, a \<open>forEach\<close>
  filling the dictionary \<open>clientHours\<close>, and \<open>Object.entries\<close> turned into
  \<open>{clientId, hours}\<close> pairs.
\<close>

definition clientHours_step ::
  "(string \<times> jsnum) list \<Rightarrow> TimeEntry \<Rightarrow> (string \<times> jsnum) list" where
  "clientHours_step clientHours entry =
     obj_set clientHours (te_clientId entry)
       (plusField (or_zero_num (obj_get clientHours (te_clientId entry))) (te_hours entry))"

definition calculateReport :: "TimeEntry list \<Rightarrow> TimeReport" where
  "calculateReport timeEntries =
     \<lparr> totalHours = foldl (\<lambda>sum entry. plusField sum (te_hours entry)) zero timeEntries,
       hoursByClient = foldl clientHours_step [] timeEntries \<rparr>"

record ClientInvoices =
  ci_total :: nat
  ci_amount :: jsnum

text \<open>\<open>obj[k].f = g(obj[k].f)\<close>: change the value under an existing key.\<close>

fun obj_modify :: "('k \<times> 'v) list \<Rightarrow> 'k \<Rightarrow> ('v \<Rightarrow> 'v) \<Rightarrow> ('k \<times> 'v) list" where
  "obj_modify [] k f = []"
| "obj_modify ((k', v) # kvs) k f =
     (if k' = k then (k', f v) # kvs else (k', v) # obj_modify kvs k f)"

text \<open>
  The figures of \<open>generateInvoicesHTML\<close>: \<open>totalAmount\<close> and the dictionary
  \<open>clientInvoices\<close>. A stored \<open>{total, amount}\<close> object is truthy, so
  \<open>!clientInvoices[k]\<close> holds exactly when the key is absent.
\<close>

definition totalAmount :: "ReportInvoice list \<Rightarrow> jsnum" where
  "totalAmount invoices = foldl (\<lambda>sum inv. plusField sum (ri_amount inv)) zero invoices"

definition clientInvoices_step ::
  "(string \<times> ClientInvoices) list \<Rightarrow> ReportInvoice \<Rightarrow> (string \<times> ClientInvoices) list" where
  "clientInvoices_step clientInvoices invoice =
     (let k = ri_clientId invoice;
          o1 = (if obj_get clientInvoices k = None
                then obj_set clientInvoices k \<lparr> ci_total = 0, ci_amount = zero \<rparr>
                else clientInvoices);
          o2 = obj_modify o1 k (\<lambda>s. s\<lparr> ci_total := ci_total s + 1 \<rparr>)
      in obj_modify o2 k (\<lambda>s. s\<lparr> ci_amount := plusField (ci_amount s) (ri_amount invoice) \<rparr>))"

definition clientInvoices :: "ReportInvoice list \<Rightarrow> (string \<times> ClientInvoices) list" where
  "clientInvoices invoices = foldl clientInvoices_step [] invoices"

record ClientTasks =
  ct_completed :: nat
  ct_pending :: nat

record ClientTaskRow =
  row_clientId :: string
  row_clientName :: string
  row_completed :: nat
  row_pending :: nat
  row_total :: nat
  row_completionRate :: real

text \<open>
  \<open>getTasksByClient\<close> of \<open>TasksReport\<close>. \<open>clientTasks[k][task.status]++\<close> counts under
  the status' own name; a status other than \<open>completed\<close> and \<open>pending\<close> leaves both
  counters as they are (it creates a property that the rows never read).
\<close>

definition bump_status :: "string \<Rightarrow> ClientTasks \<Rightarrow> ClientTasks" where
  "bump_status status s =
     (if status = ''completed'' then s\<lparr> ct_completed := ct_completed s + 1 \<rparr>
      else if status = ''pending'' then s\<lparr> ct_pending := ct_pending s + 1 \<rparr>
      else s)"

definition clientTasks_step ::
  "(string \<times> ClientTasks) list \<Rightarrow> ReportTask \<Rightarrow> (string \<times> ClientTasks) list" where
  "clientTasks_step clientTasks task =
     (let k = rt_clientId task;
          o1 = (if obj_get clientTasks k = None
                then obj_set clientTasks k \<lparr> ct_completed = 0, ct_pending = 0 \<rparr>
                else clientTasks)
      in obj_modify o1 k (bump_status (rt_status task)))"

definition taskRow :: "Client list \<Rightarrow> string \<times> ClientTasks \<Rightarrow> ClientTaskRow" where
  "taskRow clients e =
     (let clientId = fst e; stats = snd e;
          client = List.find (\<lambda>c. c_id c = clientId) clients;
          total = ct_completed stats + ct_pending stats;
          completionRate = (if total > 0 then (real (ct_completed stats) / real total) * 100 else 0)
      in \<lparr> row_clientId = clientId,
           row_clientName = (case client of Some c \<Rightarrow> c_name c | None \<Rightarrow> ''Unknown Client''),
           row_completed = ct_completed stats,
           row_pending = ct_pending stats,
           row_total = total,
           row_completionRate = completionRate \<rparr>)"

definition getTasksByClient :: "ReportTask list \<Rightarrow> Client list \<Rightarrow> ClientTaskRow list" where
  "getTasksByClient tasks clients = map (taskRow clients) (foldl clientTasks_step [] tasks)"

text \<open>The number of a client's tasks with a given status.\<close>

definition countStatus :: "string \<Rightarrow> string \<Rightarrow> ReportTask list \<Rightarrow> nat" where
  "countStatus k st tasks = length (filter (\<lambda>t. rt_clientId t = k \<and> rt_status t = st) tasks)"

text \<open>
  Figures that add up without rounding. A field is a whole number of units of \<open>2^-q\<close>
  when it holds a finite double \<open>(m, e)\<close> with \<open>0 \<le> m\<close> and \<open>-q \<le> e\<close>; it then counts
  \<open>m * 2^(e + q)\<close> units (quarter hours are the units of \<open>q = 2\<close>, whole numbers those of
  \<open>q = 0\<close>). \<open>numberValue\<close> is the value of a finite number and \<open>fieldValue\<close> that of a
  field holding one.
\<close>

definition inUnits :: "nat \<Rightarrow> jsnum option \<Rightarrow> bool" where
  "inUnits q x = (case x of Some (Number (m, e)) \<Rightarrow> 0 \<le> m \<and> - int q \<le> e | _ \<Rightarrow> False)"

definition units :: "nat \<Rightarrow> jsnum option \<Rightarrow> nat" where
  "units q x = (case x of Some (Number (m, e)) \<Rightarrow> nat m * 2 ^ nat (e + int q) | _ \<Rightarrow> 0)"

definition isFinite :: "jsnum \<Rightarrow> bool" where
  "isFinite x = (case x of Number d \<Rightarrow> True | _ \<Rightarrow> False)"

definition numberValue :: "jsnum \<Rightarrow> real" where
  "numberValue x = (case x of Number d \<Rightarrow> dval d | _ \<Rightarrow> 0)"

definition fieldValue :: "jsnum option \<Rightarrow> real" where
  "fieldValue x = (case x of Some y \<Rightarrow> numberValue y | None \<Rightarrow> 0)"

text \<open>A number that is exactly \<open>n\<close> units of \<open>2^-q\<close>.\<close>

definition isUnits :: "nat \<Rightarrow> jsnum \<Rightarrow> nat \<Rightarrow> bool" where
  "isUnits q x n \<longleftrightarrow>
     (\<exists>m e. x = Number (m, e) \<and> 0 \<le> m \<and> - int q \<le> e \<and> nat m * 2 ^ nat (e + int q) = n)"

text \<open>Entries, invoices and tasks for the examples.\<close>

definition timeEntry :: "string \<Rightarrow> jsnum option \<Rightarrow> TimeEntry" where
  "timeEntry clientId hours =
     \<lparr> te_id = ''e'', te_userId = ''u1'', te_clientId = clientId, te_hours = hours,
       te_date = 0, te_description = [] \<rparr>"

definition reportInvoice :: "string \<Rightarrow> jsnum option \<Rightarrow> ReportInvoice" where
  "reportInvoice clientId amount =
     \<lparr> ri_id = ''i'', ri_userId = ''u1'', ri_clientId = clientId, ri_amount = amount,
       ri_status = ''unpaid'', ri_dueDate = 0, ri_createdAt = 0 \<rparr>"

definition reportTask :: "string \<Rightarrow> string \<Rightarrow> ReportTask" where
  "reportTask clientId status =
     \<lparr> rt_id = ''t'', rt_userId = ''u1'', rt_clientId = clientId, rt_title = ''task'',
       rt_status = status, rt_dueDate = 0, rt_createdAt = 0 \<rparr>"

text \<open>Hours 1.5, 4 and 2.25 for two clients.\<close>

definition quarterEntries :: "TimeEntry list" where
  "quarterEntries =
     [timeEntry ''c1'' (Some (Number (3, - 1))), timeEntry ''c2'' (Some (Number (1, 2))),
      timeEntry ''c1'' (Some (Number (9, - 2)))]"

text \<open>Amounts 120, 80 and 40.5 for two clients.\<close>

definition halfInvoices :: "ReportInvoice list" where
  "halfInvoices =
     [reportInvoice ''c1'' (Some (Number (120, 0))), reportInvoice ''c2'' (Some (Number (5, 4))),
      reportInvoice ''c1'' (Some (Number (81, - 1)))]"

definition sampleTasks :: "ReportTask list" where
  "sampleTasks =
     [reportTask ''c1'' ''completed'', reportTask ''c2'' ''pending'',
      reportTask ''c1'' ''pending'']"

text \<open>
  The doubles nearest to 0.1, 0.2 and 0.6: hours 0.1 and 0.6 for one client and 0.2
  for another.
\<close>

definition tenthEntries :: "TimeEntry list" where
  "tenthEntries =
     [timeEntry ''c1'' (Some (Number (7205759403792794, - 56))),
      timeEntry ''c2'' (Some (Number (7205759403792794, - 55))),
      timeEntry ''c1'' (Some (Number (5404319552844595, - 53)))]"

section \<open>Strings\<close>





text \<open>\<open>s.includes(t)\<close>: \<open>t\<close> occurs in \<open>s\<close> as a contiguous substring.\<close>

fun startsWith :: "string \<Rightarrow> string \<Rightarrow> bool" where
  "startsWith s [] = True"
| "startsWith [] (c # cs) = False"
| "startsWith (x # xs) (c # cs) = (x = c \<and> startsWith xs cs)"

fun js_includes :: "string \<Rightarrow> string \<Rightarrow> bool" where
  "js_includes [] t = (t = [])"
| "js_includes (x # xs) t = (startsWith (x # xs) t \<or> js_includes xs t)"

text \<open>\<open>parts.join(sep)\<close> on an array of strings.\<close>

fun join :: "string \<Rightarrow> string list \<Rightarrow> string" where
  "join sep [] = []"
| "join sep [x] = x"
| "join sep (x # y # ys) = x @ sep @ join sep (y # ys)"

text \<open>\<open>s.split(sep)\<close> for a separator of one character; the result is never empty.\<close>

fun split :: "char \<Rightarrow> string \<Rightarrow> string list" where
  "split sep [] = [[]]"
| "split sep (c # cs) =
     (if c = sep then [] # split sep cs
      else (case split sep cs of w # ws \<Rightarrow> (c # w) # ws | [] \<Rightarrow> [[c]]))"

text \<open>\<open>xs[i]\<close>: \<open>undefined\<close> (here \<open>None\<close>) outside the array.\<close>

definition at_index :: "'a list \<Rightarrow> nat \<Rightarrow> 'a option" where
  "at_index xs i = (if i < length xs then Some (xs ! i) else None)"

text \<open>\<open>s.padStart(n, c)\<close> for a one-character filler.\<close>

definition padStart :: "nat \<Rightarrow> char \<Rightarrow> string \<Rightarrow> string" where
  "padStart n c s = replicate (n - length s) c @ s"

text \<open>
  \<open>String(n)\<close> for an integer-valued number: its decimal digits, with a minus sign for
  a negative value. Integers are unbounded in the model; a double holds them exactly
  below \<open>2^53\<close>.
\<close>

definition digit_char :: "nat \<Rightarrow> char" where
  "digit_char d = ''0123456789'' ! d"

fun decimal :: "nat \<Rightarrow> string" where
  "decimal n = (if n < 10 then [digit_char n] else decimal (n div 10) @ [digit_char (n mod 10)])"

declare decimal.simps [simp del]

definition String_int :: "int \<Rightarrow> string" where
  "String_int n = (if n < 0 then CHR ''-'' # decimal (nat (- n)) else decimal (nat n))"

text \<open>
  \<open>parseInt(s)\<close> with no radix: leading white space is skipped, a sign is read, a
  \<open>0x\<close>/\<open>0X\<close> prefix selects base 16, and the longest run of digits of the base is
  the value; with no digit the result is \<open>NaN\<close>, here \<open>None\<close>.
\<close>

definition isWhiteSpace :: "char \<Rightarrow> bool" where
  "isWhiteSpace c = (c \<in> set [CHR 0x09, CHR 0x0A, CHR 0x0B, CHR 0x0C, CHR 0x0D, CHR 0x20])"

definition digitValue :: "char \<Rightarrow> nat option" where
  "digitValue c =
     map_of
       [(CHR ''0'', 0), (CHR ''1'', 1), (CHR ''2'', 2), (CHR ''3'', 3), (CHR ''4'', 4),
        (CHR ''5'', 5), (CHR ''6'', 6), (CHR ''7'', 7), (CHR ''8'', 8), (CHR ''9'', 9),
        (CHR ''a'', 10), (CHR ''b'', 11), (CHR ''c'', 12), (CHR ''d'', 13), (CHR ''e'', 14),
        (CHR ''f'', 15), (CHR ''A'', 10), (CHR ''B'', 11), (CHR ''C'', 12), (CHR ''D'', 13),
        (CHR ''E'', 14), (CHR ''F'', 15)] c"

definition radixDigit :: "nat \<Rightarrow> char \<Rightarrow> nat option" where
  "radixDigit R c = (case digitValue c of Some d \<Rightarrow> (if d < R then Some d else None) | None \<Rightarrow> None)"

fun takeDigits :: "nat \<Rightarrow> string \<Rightarrow> nat list" where
  "takeDigits R [] = []"
| "takeDigits R (c # cs) = (case radixDigit R c of Some d \<Rightarrow> d # takeDigits R cs | None \<Rightarrow> [])"

definition readSign :: "string \<Rightarrow> int \<times> string" where
  "readSign s =
     (case s of
        [] \<Rightarrow> (1, s)
      | c # cs \<Rightarrow> (if c = CHR ''-'' then (- 1, cs) else if c = CHR ''+'' then (1, cs) else (1, s)))"

definition readRadix :: "string \<Rightarrow> nat \<times> string" where
  "readRadix s =
     (case s of
        a # b # cs \<Rightarrow> (if a = CHR ''0'' \<and> (b = CHR ''x'' \<or> b = CHR ''X'') then (16, cs) else (10, s))
      | _ \<Rightarrow> (10, s))"

definition parseInt :: "string \<Rightarrow> int option" where
  "parseInt s =
     (let (sign, s2) = readSign (dropWhile isWhiteSpace s);
          (R, s3) = readRadix s2;
          ds = takeDigits R s3
      in if ds = [] then None else Some (sign * int (foldl (\<lambda>acc d. acc * R + d) 0 ds)))"

section \<open>CSV export (report utilities)\<close>

text \<open>
  A field of an exported record: \<open>undefined\<close>, \<open>null\<close>, or any other value, which the
  export only ever sees through \<open>String(value)\<close>. A record is a plain object whose own
  keys are listed in the order of \<open>Object.keys\<close>. \<open>row[header]\<close> is the record's own
  property of that name or, when it has none, the property that it inherits from
  \<open>Object.prototype\<close>: \<open>inherited\<close> gives the inherited property of every name, and
  \<open>undefined\<close> for a name that the prototype lacks too.
\<close>

datatype jsvalue = Undefined | Null | Value string

type_synonym csv_record = "(string \<times> jsvalue) list"

definition getField :: "(string \<Rightarrow> jsvalue) \<Rightarrow> csv_record \<Rightarrow> string \<Rightarrow> jsvalue" where
  "getField inherited row header =
     (case obj_get row header of None \<Rightarrow> inherited header | Some v \<Rightarrow> v)"

text \<open>\<open>String(value ?? '')\<close>.\<close>

definition stringValue :: "jsvalue \<Rightarrow> string" where
  "stringValue v = (case v of Undefined \<Rightarrow> [] | Null \<Rightarrow> [] | Value s \<Rightarrow> s)"

text \<open>\<open>s.replace(/"/g, '""')\<close>; the double quote is character \<open>0x22\<close>.\<close>

definition doubleQuotes :: "string \<Rightarrow> string" where
  "doubleQuotes s = concat (map (\<lambda>c. if c = CHR 0x22 then [CHR 0x22, CHR 0x22] else [c]) s)"

definition csvField :: "string \<Rightarrow> string" where
  "csvField s =
     (if js_includes s '','' \<or> js_includes s [CHR 0x22] \<or> js_includes s [CHR 0x0A]
      then [CHR 0x22] @ doubleQuotes s @ [CHR 0x22]
      else s)"

definition csvContent :: "(string \<Rightarrow> jsvalue) \<Rightarrow> csv_record list \<Rightarrow> string" where
  "csvContent inherited data =
     (let headers = map fst (hd data)
      in join [CHR 0x0A]
           (join '','' headers #
            map (\<lambda>row. join '',''
                        (map (\<lambda>header. csvField (stringValue (getField inherited row header)))
                           headers))
              data))"

text \<open>
  \<open>exportToCSV\<close>: the downloaded file, as its name and content, or \<open>None\<close> when the
  function returns after the warning. \<open>today\<close> is the date part of
  \<open>new Date().toISOString()\<close>.
\<close>

definition exportToCSV ::
  "(string \<Rightarrow> jsvalue) \<Rightarrow> csv_record list \<Rightarrow> string \<Rightarrow> string \<Rightarrow> (string \<times> string) option" where
  "exportToCSV inherited data filename today =
     (if length data = 0 then None
      else Some (filename @ ''_'' @ today @ ''.csv'', csvContent inherited data))"

text \<open>
  The words of the claim: a line is its fields with a comma between neighbours, and
  the content is the header line followed by one line per record, each after a newline.
\<close>

definition commaLine :: "string list \<Rightarrow> string" where
  "commaLine cells =
     (case cells of [] \<Rightarrow> [] | f # rest \<Rightarrow> f @ concat (map (\<lambda>g. CHR '','' # g) rest))"

definition linesAfter :: "string \<Rightarrow> string list \<Rightarrow> string" where
  "linesAfter header rows = header @ concat (map (\<lambda>r. CHR 0x0A # r) rows)"

text \<open>What a CSV reader does inside a quoted field: a doubled quote is one quote.\<close>

fun undoubleQuotes :: "string \<Rightarrow> string" where
  "undoubleQuotes (a # b # cs) =
     (if a = CHR 0x22 \<and> b = CHR 0x22 then CHR 0x22 # undoubleQuotes cs else a # undoubleQuotes (b # cs))"
| "undoubleQuotes cs = cs"

definition sampleRecords :: "csv_record list" where
  "sampleRecords =
     [[(''name'', Value ''Acme, Inc.''), (''hours'', Value ''7.5''), (''note'', Null)],
      [(''name'', Value [CHR ''6'', CHR 0x22, CHR '' '', CHR ''x'']), (''hours'', Value ''2'')]]"

text \<open>A prototype with one property, for the examples.\<close>

definition samplePrototype :: "string \<Rightarrow> jsvalue" where
  "samplePrototype name = (if name = ''unit'' then Value ''h, min'' else Undefined)"

section \<open>The invoices page\<close>

record InvoiceItem =
  item_description :: string
  item_quantity :: real
  item_rate :: real
  item_amount :: real

text \<open>
  The page's \<open>Invoice\<close>. The two dates are ISO strings made from timestamps; the model
  keeps the instant (milliseconds since the epoch).
\<close>

record Invoice =
  inv_id :: string
  inv_userId :: string
  inv_invoiceNumber :: string
  inv_clientId :: string
  inv_clientName :: "string option"
  inv_items :: "InvoiceItem list"
  inv_total :: real
  inv_status :: string
  inv_dueDate :: int
  inv_createdAt :: int

subsection \<open>Invoice numbers\<close>

text \<open>\<open>parseInt(inv.invoiceNumber.split('-')[1])\<close>.\<close>

definition numberOf :: "Invoice \<Rightarrow> int option" where
  "numberOf invoice =
     (case at_index (split CHR ''-'' (inv_invoiceNumber invoice)) 1 of
        None \<Rightarrow> None
      | Some seg \<Rightarrow> parseInt seg)"

text \<open>The \<open>reduce\<close> of \<open>generateInvoiceNumber\<close>; \<open>NaN > max\<close> is false.\<close>

definition maxNumber :: "Invoice list \<Rightarrow> int" where
  "maxNumber invoices =
     foldl (\<lambda>max inv. case numberOf inv of Some num \<Rightarrow> (if num > max then num else max) | None \<Rightarrow> max)
       0 invoices"

definition generateInvoiceNumber :: "Invoice list \<Rightarrow> string" where
  "generateInvoiceNumber invoices =
     ''INV-'' @ padStart 4 CHR ''0'' (String_int (maxNumber invoices + 1))"

text \<open>An invoice with a given number, for the examples.\<close>

definition invoiceNumbered :: "string \<Rightarrow> Invoice" where
  "invoiceNumbered n =
     \<lparr> inv_id = ''doc1'', inv_userId = ''u1'', inv_invoiceNumber = n, inv_clientId = ''c1'',
       inv_clientName = Some ''Acme'', inv_items = [], inv_total = 0, inv_status = ''Unpaid'',
       inv_dueDate = 0, inv_createdAt = 0 \<rparr>"


subsection \<open>Page state\<close>

text \<open>The notifications raised with \<open>message.error\<close>, \<open>message.success\<close>, \<open>message.info\<close>.\<close>

datatype message = MsgError string | MsgSuccess string | MsgInfo string

text \<open>The page's \<open>Client\<close>.\<close>

record PageClient =
  pc_id :: string
  pc_userId :: string
  pc_name :: string
  pc_email :: string
  pc_phone :: "string option"
  pc_address :: "string option"

text \<open>
  The \<open>useState\<close> cells of \<open>InvoicesPage\<close>, and the notifications shown so far (latest
  last). The antd form instance is not part of the model.
\<close>

record InvoicesPage =
  ip_invoices :: "Invoice list"
  ip_clients :: "PageClient list"
  ip_filteredInvoices :: "Invoice list"
  ip_isModalVisible :: bool
  ip_editingInvoice :: "Invoice option"
  ip_isLoading :: bool
  ip_searchText :: string
  ip_statusFilter :: string
  ip_clientFilter :: string
  ip_messages :: "message list"

subsection \<open>The filter effect\<close>






definition samplePage :: InvoicesPage where
  "samplePage =
     \<lparr> ip_invoices =
         [invoiceNumbered ''INV-0001'',
          (invoiceNumbered ''INV-0002'')\<lparr> inv_status := ''Paid'', inv_clientName := None \<rparr>],
       ip_clients = [], ip_filteredInvoices = [], ip_isModalVisible = False,
       ip_editingInvoice = None, ip_isLoading = False, ip_searchText = ''acme'',
       ip_statusFilter = ''Unpaid'', ip_clientFilter = ''all'', ip_messages = [] \<rparr>"

subsection \<open>The remote collections of the invoices page\<close>

text \<open>
  What a \<open>try\<close> block can catch: a rejected remote call, or a \<open>TypeError\<close> raised while
  reading a document.
\<close>

datatype js_error = FirebaseError | TypeError

text \<open>
  The data of a document of collection \<open>invoices\<close>. \<open>dueDate\<close> and \<open>createdAt\<close> are
  \<open>None\<close> when the field holds no timestamp, so that \<open>.toDate()\<close> throws.
\<close>

record InvoiceData =
  d_userId :: string
  d_invoiceNumber :: string
  d_clientId :: string
  d_clientName :: "string option"
  d_items :: "InvoiceItem list"
  d_total :: real
  d_status :: string
  d_dueDate :: "int option"
  d_createdAt :: "int option"

record ClientData =
  cd_userId :: string
  cd_name :: string
  cd_email :: string
  cd_phone :: "string option"
  cd_address :: "string option"

text \<open>
  The document store as the invoices page uses it: two collections of documents
  \<open>(id, data)\<close>, a counter for the ids that \<open>addDoc\<close> assigns, and a script
  \<open>fs_faults\<close> saying for each coming remote call whether it is rejected (an empty script:
  no call is rejected). The script makes every interleaving of successes and failures
  an input of the model.
\<close>

record InvoiceStore =
  fs_invoices :: "(string \<times> InvoiceData) list"
  fs_clients :: "(string \<times> ClientData) list"
  fs_autoId :: nat
  fs_faults :: "bool list"

definition nextFault :: "InvoiceStore \<Rightarrow> bool \<times> InvoiceStore" where
  "nextFault fs =
     (case fs_faults fs of [] \<Rightarrow> (False, fs) | f # rest \<Rightarrow> (f, fs\<lparr> fs_faults := rest \<rparr>))"

text \<open>
  \<open>getDocs(query(collection(db, 'invoices'), where('userId', '==', uid),
  orderBy('createdAt', 'desc')))\<close>: the documents with that \<open>userId\<close> that have a
  \<open>createdAt\<close>, latest first.
\<close>

definition getDocs_invoices ::
  "string \<Rightarrow> InvoiceStore \<Rightarrow> (js_error + (string \<times> InvoiceData) list) \<times> InvoiceStore" where
  "getDocs_invoices uid fs =
     (let (fault, fs1) = nextFault fs
      in if fault then (Inl FirebaseError, fs1)
         else (Inr (rev (sort_key (\<lambda>doc. the (d_createdAt (snd doc)))
                      (filter (\<lambda>doc. d_userId (snd doc) = uid \<and> d_createdAt (snd doc) \<noteq> None)
                         (fs_invoices fs1)))),
               fs1))"

text \<open>\<open>getDocs(query(collection(db, 'clients'), where('userId', '==', uid)))\<close>.\<close>

definition getDocs_clients ::
  "string \<Rightarrow> InvoiceStore \<Rightarrow> (js_error + (string \<times> ClientData) list) \<times> InvoiceStore" where
  "getDocs_clients uid fs =
     (let (fault, fs1) = nextFault fs
      in if fault then (Inl FirebaseError, fs1)
         else (Inr (filter (\<lambda>doc. cd_userId (snd doc) = uid) (fs_clients fs1)), fs1))"

text \<open>\<open>addDoc(collection(db, 'invoices'), data)\<close>: a new document under a fresh id.\<close>

definition addDoc_invoices ::
  "InvoiceData \<Rightarrow> InvoiceStore \<Rightarrow> (js_error + string) \<times> InvoiceStore" where
  "addDoc_invoices data fs =
     (let (fault, fs1) = nextFault fs
      in if fault then (Inl FirebaseError, fs1)
         else (let newId = ''auto'' @ decimal (fs_autoId fs1)
               in (Inr newId,
                   fs1\<lparr> fs_invoices := fs_invoices fs1 @ [(newId, data)],
                        fs_autoId := fs_autoId fs1 + 1 \<rparr>)))"

text \<open>
  \<open>updateDoc(doc(db, 'invoices', id), fields)\<close>: \<open>change\<close> overwrites the given fields;
  the call is rejected when no document has the id.
\<close>

definition updateDoc_invoices ::
  "string \<Rightarrow> (InvoiceData \<Rightarrow> InvoiceData) \<Rightarrow> InvoiceStore \<Rightarrow> (js_error + unit) \<times> InvoiceStore" where
  "updateDoc_invoices docId change fs =
     (let (fault, fs1) = nextFault fs
      in if fault \<or> obj_get (fs_invoices fs1) docId = None then (Inl FirebaseError, fs1)
         else (Inr (), fs1\<lparr> fs_invoices := obj_modify (fs_invoices fs1) docId change \<rparr>))"

text \<open>\<open>deleteDoc(doc(db, 'invoices', id))\<close>; deleting a missing document succeeds.\<close>

definition deleteDoc_invoices ::
  "string \<Rightarrow> InvoiceStore \<Rightarrow> (js_error + unit) \<times> InvoiceStore" where
  "deleteDoc_invoices docId fs =
     (let (fault, fs1) = nextFault fs
      in if fault then (Inl FirebaseError, fs1)
         else (Inr (), fs1\<lparr> fs_invoices := filter (\<lambda>doc. fst doc \<noteq> docId) (fs_invoices fs1) \<rparr>))"

subsection \<open>Fetching\<close>

text \<open>The body of the \<open>forEach\<close> of \<open>fetchInvoices\<close>: one document as an \<open>Invoice\<close>.\<close>

definition toInvoice :: "string \<times> InvoiceData \<Rightarrow> js_error + Invoice" where
  "toInvoice doc =
     (let data = snd doc
      in case d_dueDate data of
           None \<Rightarrow> Inl TypeError
         | Some due \<Rightarrow>
             (case d_createdAt data of
                None \<Rightarrow> Inl TypeError
              | Some created \<Rightarrow>
                  Inr \<lparr> inv_id = fst doc, inv_userId = d_userId data,
                        inv_invoiceNumber = d_invoiceNumber data, inv_clientId = d_clientId data,
                        inv_clientName = d_clientName data, inv_items = d_items data,
                        inv_total = d_total data, inv_status = d_status data,
                        inv_dueDate = due, inv_createdAt = created \<rparr>))"

text \<open>The whole \<open>forEach\<close>: the first document that throws ends it.\<close>

fun toInvoices :: "(string \<times> InvoiceData) list \<Rightarrow> js_error + Invoice list" where
  "toInvoices [] = Inr []"
| "toInvoices (doc # docs) =
     (case toInvoice doc of
        Inl e \<Rightarrow> Inl e
      | Inr invoice \<Rightarrow> (case toInvoices docs of Inl e \<Rightarrow> Inl e | Inr rest \<Rightarrow> Inr (invoice # rest)))"

definition notify :: "message \<Rightarrow> InvoicesPage \<Rightarrow> InvoicesPage" where
  "notify m st = st\<lparr> ip_messages := ip_messages st @ [m] \<rparr>"

text \<open>
  \<open>fetchInvoices\<close>. \<open>user\<close> is the uid of the signed-in user, \<open>None\<close> when nobody is
  signed in. The \<open>finally\<close> block runs on both paths.
\<close>

definition fetchInvoices ::
  "string option \<Rightarrow> InvoicesPage \<times> InvoiceStore \<Rightarrow> InvoicesPage \<times> InvoiceStore" where
  "fetchInvoices user s =
     (case user of
        None \<Rightarrow> s
      | Some uid \<Rightarrow>
          (let st1 = (fst s)\<lparr> ip_isLoading := True \<rparr>;
               (querySnapshot, fs1) = getDocs_invoices uid (snd s);
               invoicesData = (case querySnapshot of Inl e \<Rightarrow> Inl e | Inr docs \<Rightarrow> toInvoices docs)
           in case invoicesData of
                Inr invoicesData \<Rightarrow>
                  (st1\<lparr> ip_invoices := invoicesData, ip_filteredInvoices := invoicesData,
                        ip_isLoading := False \<rparr>, fs1)
              | Inl e \<Rightarrow>
                  ((notify (MsgError ''Failed to fetch invoices'') st1)\<lparr> ip_isLoading := False \<rparr>,
                   fs1)))"

text \<open>\<open>{ id: doc.id, ...doc.data() } as Client\<close>.\<close>

definition toClient :: "string \<times> ClientData \<Rightarrow> PageClient" where
  "toClient doc =
     \<lparr> pc_id = fst doc, pc_userId = cd_userId (snd doc), pc_name = cd_name (snd doc),
       pc_email = cd_email (snd doc), pc_phone = cd_phone (snd doc),
       pc_address = cd_address (snd doc) \<rparr>"

definition fetchClients ::
  "string option \<Rightarrow> InvoicesPage \<times> InvoiceStore \<Rightarrow> InvoicesPage \<times> InvoiceStore" where
  "fetchClients user s =
     (case user of
        None \<Rightarrow> s
      | Some uid \<Rightarrow>
          (let (querySnapshot, fs1) = getDocs_clients uid (snd s)
           in case querySnapshot of
                Inr docs \<Rightarrow> ((fst s)\<lparr> ip_clients := map toClient docs \<rparr>, fs1)
              | Inl e \<Rightarrow> (notify (MsgError ''Failed to fetch clients'') (fst s), fs1)))"

subsection \<open>Saving and deleting\<close>

text \<open>The values that the antd form hands to \<open>handleSubmit\<close> once its rules have passed.\<close>

record FormItem =
  fi_description :: string
  fi_quantity :: real
  fi_rate :: real

record FormValues =
  fv_clientId :: string
  fv_items :: "FormItem list"
  fv_status :: string
  fv_dueDate :: int

text \<open>\<open>values.items.map(...)\<close> and the \<open>reduce\<close> over the result.\<close>

definition lineItem :: "FormItem \<Rightarrow> InvoiceItem" where
  "lineItem item =
     \<lparr> item_description = fi_description item, item_quantity = fi_quantity item,
       item_rate = fi_rate item, item_amount = fi_quantity item * fi_rate item \<rparr>"

text \<open>
  The object \<open>invoiceData\<close> of \<open>handleSubmit\<close>; \<open>now\<close> is \<open>Timestamp.now()\<close>.
  \<open>client?.name || ''\<close> is the client's name, or the empty string.
\<close>

definition invoiceData :: "string \<Rightarrow> FormValues \<Rightarrow> int \<Rightarrow> InvoicesPage \<Rightarrow> InvoiceData" where
  "invoiceData uid values now st =
     (let items = map lineItem (fv_items values);
          total = foldl (\<lambda>sum item. sum + item_amount item) 0 items;
          client = List.find (\<lambda>c. pc_id c = fv_clientId values) (ip_clients st)
      in \<lparr> d_userId = uid,
           d_invoiceNumber =
             (case ip_editingInvoice st of
                Some editingInvoice \<Rightarrow> inv_invoiceNumber editingInvoice
              | None \<Rightarrow> generateInvoiceNumber (ip_invoices st)),
           d_clientId = fv_clientId values,
           d_clientName = Some (case client of Some c \<Rightarrow> pc_name c | None \<Rightarrow> []),
           d_items = items,
           d_total = total,
           d_status = fv_status values,
           d_dueDate = Some (fv_dueDate values),
           d_createdAt =
             Some (case ip_editingInvoice st of
                     Some editingInvoice \<Rightarrow> inv_createdAt editingInvoice
                   | None \<Rightarrow> now) \<rparr>)"

text \<open>
  \<open>handleSubmit\<close>. The call \<open>fetchInvoices()\<close> that follows a successful save is not
  awaited in the source; the model runs it at the place of the call, which gives the
  same final state (the only cell both write is \<open>isLoading\<close>, and both leave it false).
\<close>

definition handleSubmit ::
  "string option \<Rightarrow> FormValues \<Rightarrow> int \<Rightarrow> InvoicesPage \<times> InvoiceStore
     \<Rightarrow> InvoicesPage \<times> InvoiceStore" where
  "handleSubmit user values now s =
     (case user of
        None \<Rightarrow> (notify (MsgError ''You must be logged in'') (fst s), snd s)
      | Some uid \<Rightarrow>
          (let st1 = (fst s)\<lparr> ip_isLoading := True \<rparr>;
               data = invoiceData uid values now st1;
               saved = (\<lambda>text fs1.
                 (let st2 = (notify (MsgSuccess text) st1)
                              \<lparr> ip_isModalVisible := False, ip_editingInvoice := None \<rparr>;
                      (st3, fs2) = fetchInvoices user (st2, fs1)
                  in (st3\<lparr> ip_isLoading := False \<rparr>, fs2)));
               failed = (\<lambda>fs1.
                 ((notify (MsgError ''Failed to save invoice'') st1)\<lparr> ip_isLoading := False \<rparr>, fs1))
           in case ip_editingInvoice st1 of
                Some editingInvoice \<Rightarrow>
                  (if inv_userId editingInvoice \<noteq> uid
                   then ((notify (MsgError ''You do not have permission to edit this invoice'') st1)
                            \<lparr> ip_isLoading := False \<rparr>, snd s)
                   else (case updateDoc_invoices (inv_id editingInvoice) (\<lambda>old. data) (snd s) of
                           (Inl e, fs1) \<Rightarrow> failed fs1
                         | (Inr u, fs1) \<Rightarrow> saved ''Invoice updated successfully'' fs1))
              | None \<Rightarrow>
                  (case addDoc_invoices data (snd s) of
                     (Inl e, fs1) \<Rightarrow> failed fs1
                   | (Inr docId, fs1) \<Rightarrow> saved ''Invoice created successfully'' fs1)))"

definition handleDelete ::
  "string option \<Rightarrow> Invoice \<Rightarrow> InvoicesPage \<times> InvoiceStore \<Rightarrow> InvoicesPage \<times> InvoiceStore" where
  "handleDelete user invoice s =
     (case user of
        None \<Rightarrow> s
      | Some uid \<Rightarrow>
          (if inv_userId invoice \<noteq> uid
           then (notify (MsgError ''You do not have permission to delete this invoice'') (fst s), snd s)
           else (case deleteDoc_invoices (inv_id invoice) (snd s) of
                   (Inl e, fs1) \<Rightarrow> (notify (MsgError ''Failed to delete invoice'') (fst s), fs1)
                 | (Inr u, fs1) \<Rightarrow>
                     fetchInvoices user (notify (MsgSuccess ''Invoice deleted successfully'') (fst s), fs1))))"

definition handleStatusUpdate ::
  "string option \<Rightarrow> Invoice \<Rightarrow> string \<Rightarrow> InvoicesPage \<times> InvoiceStore
     \<Rightarrow> InvoicesPage \<times> InvoiceStore" where
  "handleStatusUpdate user invoice newStatus s =
     (if user = None \<or> Some (inv_userId invoice) \<noteq> user
      then (notify (MsgError ''You do not have permission to update this invoice'') (fst s), snd s)
      else (case updateDoc_invoices (inv_id invoice) (\<lambda>old. old\<lparr> d_status := newStatus \<rparr>) (snd s) of
              (Inl e, fs1) \<Rightarrow> (notify (MsgError ''Failed to update status'') (fst s), fs1)
            | (Inr u, fs1) \<Rightarrow>
                fetchInvoices user (notify (MsgSuccess ''Status updated successfully'') (fst s), fs1)))"

text \<open>The lists that the page shows, and the examples used below.\<close>

definition listState :: "InvoicesPage \<Rightarrow> Invoice list \<times> PageClient list \<times> Invoice list" where
  "listState st = (ip_invoices st, ip_clients st, ip_filteredInvoices st)"

definition sampleStore :: InvoiceStore where
  "sampleStore =
     \<lparr> fs_invoices = [], fs_clients = [], fs_autoId = 0, fs_faults = [] \<rparr>"

definition sampleValues :: FormValues where
  "sampleValues =
     \<lparr> fv_clientId = ''c1'',
       fv_items = [\<lparr> fi_description = ''Design'', fi_quantity = 3, fi_rate = 40 \<rparr>,
                   \<lparr> fi_description = ''Hosting'', fi_quantity = 1, fi_rate = 15 \<rparr>],
       fv_status = ''Unpaid'', fv_dueDate = 1000 \<rparr>"

text \<open>
  A handler has failed with a notification: the three lists of the page and the two
  remote collections are as before, and the error text has been shown.
\<close>

definition failedWith ::
  "string \<Rightarrow> InvoicesPage \<times> InvoiceStore \<Rightarrow> InvoicesPage \<times> InvoiceStore \<Rightarrow> bool" where
  "failedWith text before after \<longleftrightarrow>
     listState (fst after) = listState (fst before) \<and>
     ip_messages (fst after) = ip_messages (fst before) @ [MsgError text] \<and>
     fs_invoices (snd after) = fs_invoices (snd before) \<and>
     fs_clients (snd after) = fs_clients (snd before)"

section \<open>The time-tracking page\<close>

text \<open>The page's \<open>Client\<close>, \<open>Task\<close> and \<open>TimeEntry\<close>; instants are milliseconds.\<close>

record TrackClient =
  tc_id :: string
  tc_name :: string

record TrackTask =
  tk_id :: string
  tk_title :: string
  tk_clientId :: string

record TrackEntry =
  en_id :: string
  en_taskId :: string
  en_clientId :: string
  en_startTime :: "int option"
  en_endTime :: "int option"
  en_duration :: "int option"
  en_notes :: "string option"
  en_createdAt :: "int option"
  en_userId :: "string option"

text \<open>The data of the documents of \<open>clients\<close>, \<open>tasks\<close> and \<open>timeTracking\<close>.\<close>

record TrackClientData =
  tcd_userId :: string
  tcd_name :: "string option"

record TrackTaskData =
  tkd_userId :: string
  tkd_title :: "string option"
  tkd_clientId :: string

record TimeData =
  tt_taskId :: string
  tt_clientId :: string
  tt_startTime :: "int option"
  tt_endTime :: "int option"
  tt_duration :: "int option"
  tt_notes :: "string option"
  tt_userId :: "string option"
  tt_createdAt :: "int option"

text \<open>
  The document store as the time-tracking page uses it, with a fault script as for the
  invoices page.
\<close>

record TimeStore =
  ts_clients :: "(string \<times> TrackClientData) list"
  ts_tasks :: "(string \<times> TrackTaskData) list"
  ts_timeTracking :: "(string \<times> TimeData) list"
  ts_autoId :: nat
  ts_faults :: "bool list"

definition nextTimeFault :: "TimeStore \<Rightarrow> bool \<times> TimeStore" where
  "nextTimeFault fs =
     (case ts_faults fs of [] \<Rightarrow> (False, fs) | f # rest \<Rightarrow> (f, fs\<lparr> ts_faults := rest \<rparr>))"

text \<open>
  The cells of the page that the functions below write. The summary statistics and the
  timer interval are left out: no function below reads them.
\<close>

record TimeTrackingPage =
  tp_timeEntries :: "TrackEntry list"
  tp_filteredEntries :: "TrackEntry list"
  tp_tasks :: "TrackTask list"
  tp_clients :: "TrackClient list"
  tp_loading :: bool
  tp_modalVisible :: bool
  tp_activeTimer :: "TrackEntry option"
  tp_messages :: "message list"

definition notifyTime :: "message \<Rightarrow> TimeTrackingPage \<Rightarrow> TimeTrackingPage" where
  "notifyTime m st = st\<lparr> tp_messages := tp_messages st @ [m] \<rparr>"

text \<open>\<open>x || fallback\<close> for \<open>x\<close> a string or \<open>undefined\<close>: the empty string is falsy.\<close>

definition or_text :: "string option \<Rightarrow> string \<Rightarrow> string" where
  "or_text x fallback = (case x of None \<Rightarrow> fallback | Some s \<Rightarrow> (if s = [] then fallback else s))"

text \<open>
  \<open>fetchClients\<close> and \<open>fetchTasks\<close> of this page call \<open>getDocs\<close> on the bare collection
  reference: the snapshot holds every document of the collection.
\<close>

definition trackFetchClients :: "TimeTrackingPage \<times> TimeStore \<Rightarrow> TimeTrackingPage \<times> TimeStore" where
  "trackFetchClients s =
     (let (fault, fs1) = nextTimeFault (snd s)
      in if fault then (notifyTime (MsgError ''Failed to load clients'') (fst s), fs1)
         else ((fst s)\<lparr> tp_clients :=
                   map (\<lambda>doc. \<lparr> tc_id = fst doc, tc_name = or_text (tcd_name (snd doc)) ''Unknown'' \<rparr>)
                     (ts_clients fs1) \<rparr>, fs1))"

definition trackFetchTasks :: "TimeTrackingPage \<times> TimeStore \<Rightarrow> TimeTrackingPage \<times> TimeStore" where
  "trackFetchTasks s =
     (let (fault, fs1) = nextTimeFault (snd s)
      in if fault then (notifyTime (MsgError ''Failed to load tasks'') (fst s), fs1)
         else ((fst s)\<lparr> tp_tasks :=
                   map (\<lambda>doc. \<lparr> tk_id = fst doc, tk_title = or_text (tkd_title (snd doc)) ''Unknown'',
                                tk_clientId = tkd_clientId (snd doc) \<rparr>)
                     (ts_tasks fs1) \<rparr>, fs1))"

text \<open>
  \<open>fetchTimeEntries\<close>: the query \<open>where('userId', '==', user?.uid)\<close>,
  \<open>orderBy('createdAt', 'desc')\<close>. With nobody signed in the filter value is
  \<open>undefined\<close> and building the query throws.
\<close>

definition toEntry :: "string \<times> TimeData \<Rightarrow> TrackEntry" where
  "toEntry doc =
     \<lparr> en_id = fst doc, en_taskId = tt_taskId (snd doc), en_clientId = tt_clientId (snd doc),
       en_startTime = tt_startTime (snd doc), en_endTime = tt_endTime (snd doc),
       en_duration = tt_duration (snd doc), en_notes = tt_notes (snd doc),
       en_createdAt = tt_createdAt (snd doc), en_userId = tt_userId (snd doc) \<rparr>"

definition fetchTimeEntries ::
  "string option \<Rightarrow> TimeTrackingPage \<times> TimeStore \<Rightarrow> TimeTrackingPage \<times> TimeStore" where
  "fetchTimeEntries user s =
     (let st1 = (fst s)\<lparr> tp_loading := True \<rparr>
      in case user of
           None \<Rightarrow> ((notifyTime (MsgError ''Failed to load time entries'') st1)\<lparr> tp_loading := False \<rparr>,
                    snd s)
         | Some uid \<Rightarrow>
             (let (fault, fs1) = nextTimeFault (snd s)
              in if fault
                 then ((notifyTime (MsgError ''Failed to load time entries'') st1)
                          \<lparr> tp_loading := False \<rparr>, fs1)
                 else (let entriesList =
                             map toEntry
                               (rev (sort_key (\<lambda>doc. the (tt_createdAt (snd doc)))
                                  (filter (\<lambda>doc. tt_userId (snd doc) = Some uid \<and>
                                                   tt_createdAt (snd doc) \<noteq> None)
                                     (ts_timeTracking fs1))))
                       in (st1\<lparr> tp_timeEntries := entriesList, tp_filteredEntries := entriesList,
                               tp_activeTimer := List.find (\<lambda>entry. en_endTime entry = None) entriesList,
                               tp_loading := False \<rparr>, fs1))))"

text \<open>The values of the entry form: two instants chosen with the date pickers.\<close>

record TimeEntryFormValues =
  ev_taskId :: string
  ev_clientId :: string
  ev_startTime :: int
  ev_endTime :: int
  ev_notes :: "string option"

text \<open>\<open>Math.floor((end.getTime() - start.getTime()) / 60000)\<close>.\<close>

definition durationMinutes :: "TimeEntryFormValues \<Rightarrow> int" where
  "durationMinutes values = (ev_endTime values - ev_startTime values) div 60000"

definition newEntry :: "string option \<Rightarrow> TimeEntryFormValues \<Rightarrow> int \<Rightarrow> TimeData" where
  "newEntry user values now =
     \<lparr> tt_taskId = ev_taskId values, tt_clientId = ev_clientId values,
       tt_startTime = Some (ev_startTime values), tt_endTime = Some (ev_endTime values),
       tt_duration = Some (durationMinutes values),
       tt_notes = Some (or_text (ev_notes values) []),
       tt_userId = user, tt_createdAt = Some now \<rparr>"

text \<open>
  \<open>addDoc(collection(db, 'timeTracking'), data)\<close>. The store rejects data with an
  \<open>undefined\<close> field, which is what \<open>userId: user?.uid\<close> is when nobody is signed in.
\<close>

definition addDoc_timeTracking :: "TimeData \<Rightarrow> TimeStore \<Rightarrow> (js_error + string) \<times> TimeStore" where
  "addDoc_timeTracking data fs =
     (let (fault, fs1) = nextTimeFault fs
      in if fault \<or> tt_userId data = None then (Inl FirebaseError, fs1)
         else (let newId = ''auto'' @ decimal (ts_autoId fs1)
               in (Inr newId,
                   fs1\<lparr> ts_timeTracking := ts_timeTracking fs1 @ [(newId, data)],
                        ts_autoId := ts_autoId fs1 + 1 \<rparr>)))"

definition handleAddEntry ::
  "string option \<Rightarrow> TimeEntryFormValues \<Rightarrow> int \<Rightarrow> TimeTrackingPage \<times> TimeStore
     \<Rightarrow> TimeTrackingPage \<times> TimeStore" where
  "handleAddEntry user values now s =
     (let duration = durationMinutes values
      in if duration \<le> 0
         then (notifyTime (MsgError ''End time must be after start time'') (fst s), snd s)
         else (case addDoc_timeTracking (newEntry user values now) (snd s) of
                 (Inl e, fs1) \<Rightarrow> (notifyTime (MsgError ''Failed to add entry'') (fst s), fs1)
               | (Inr docId, fs1) \<Rightarrow>
                   fetchTimeEntries user
                     ((notifyTime (MsgSuccess ''Entry added successfully'') (fst s))
                        \<lparr> tp_modalVisible := False \<rparr>, fs1)))"

text \<open>Examples: an empty page, and a store with the clients of two users.\<close>

definition emptyTimePage :: TimeTrackingPage where
  "emptyTimePage =
     \<lparr> tp_timeEntries = [], tp_filteredEntries = [], tp_tasks = [], tp_clients = [],
       tp_loading = False, tp_modalVisible = True, tp_activeTimer = None, tp_messages = [] \<rparr>"

definition twoUserStore :: TimeStore where
  "twoUserStore =
     \<lparr> ts_clients = [(''c1'', \<lparr> tcd_userId = ''u1'', tcd_name = Some ''Acme'' \<rparr>),
                     (''c2'', \<lparr> tcd_userId = ''u2'', tcd_name = Some ''Globex'' \<rparr>)],
       ts_tasks = [(''t1'', \<lparr> tkd_userId = ''u1'', tkd_title = Some ''Design'', tkd_clientId = ''c1'' \<rparr>),
                   (''t2'', \<lparr> tkd_userId = ''u2'', tkd_title = Some ''Audit'', tkd_clientId = ''c2'' \<rparr>)],
       ts_timeTracking = [], ts_autoId = 0, ts_faults = [] \<rparr>"

definition twoMinutes :: TimeEntryFormValues where
  "twoMinutes =
     \<lparr> ev_taskId = ''t1'', ev_clientId = ''c1'', ev_startTime = 0, ev_endTime = 150000,
       ev_notes = None \<rparr>"

section \<open>The dashboard\<close>

text \<open>
  The data of the documents as \<open>fetchDashboardData\<close> reads them. \<open>new Date(data.date)\<close>
  and \<open>new Date(data.createdAt)\<close> are kept as the instant they denote, \<open>None\<close> for an
  invalid date (a missing or unreadable field), which compares false with every date.
\<close>

record DashClientData =
  dc_userId :: string
  dc_name :: "string option"
  dc_createdAt :: "int option"
















section \<open>Properties of the report code\<close>

subsection \<open>Dictionaries\<close>

lemma obj_get_set: "obj_get (obj_set obj k v) k' = (if k' = k then Some v else obj_get obj k')"
  by (induction obj) auto

lemma obj_get_modify:
  "obj_get (obj_modify obj k f) k' = (if k' = k then map_option f (obj_get obj k) else obj_get obj k')"
  by (induction obj) auto

lemma obj_get_None_iff: "obj_get obj k = None \<longleftrightarrow> k \<notin> fst ` set obj"
  by (induction obj) (auto split: if_splits)

lemma keys_obj_set:
  "map fst (obj_set obj k v) = (if obj_get obj k = None then map fst obj @ [k] else map fst obj)"
  by (induction obj) (auto split: if_splits)

lemma keys_obj_modify: "map fst (obj_modify obj k f) = map fst obj"
  by (induction obj) auto

lemma obj_get_distinct: "distinct (map fst obj) \<Longrightarrow> (k, v) \<in> set obj \<Longrightarrow> obj_get obj k = Some v"
  by (induction obj) (auto simp: rev_image_eqI)

lemma obj_set_new_sum:
  fixes f :: "'k \<times> 'v \<Rightarrow> 'a::comm_monoid_add"
  shows "obj_get obj k = None \<Longrightarrow>
    sum_list (map f (obj_set obj k v)) = sum_list (map f obj) + f (k, v)"
  by (induction obj) (auto split: if_splits simp: add.assoc)

lemma foldl_plus: "foldl (\<lambda>s e. s + f e) (a::real) es = a + sum_list (map f es)"
  by (induction es arbitrary: a) simp_all

subsection \<open>Client-name lookups\<close>

lemma find_no_match: "(\<forall>x \<in> set xs. \<not> P x) \<Longrightarrow> List.find P xs = None"
  by (induction xs) auto

lemma find_first_match:
  "(\<forall>y \<in> set ys. \<not> P y) \<Longrightarrow> P x \<Longrightarrow> List.find P (ys @ x # zs) = Some x"
  by (induction ys) auto

text \<open>
  C2 (as amended). A client id that matches no loaded client is shown as the fallback
  text of the lookup: \<open>Unknown Client\<close> in \<open>getClientNameById\<close> and in the report
  component, \<open>Unknown\<close> in the PDF generator's local \<open>getClientName\<close>. A client id that
  matches is shown as the name of the first client of the list with that id.
\<close>

theorem C2_client_name_lookup:
  "((\<forall>c \<in> set clients. c_id c \<noteq> k) \<longrightarrow>
      getClientNameById clients k = ''Unknown Client'' \<and>
      getClientName_report clients k = ''Unknown Client'' \<and>
      getClientName_pdf clients k = ''Unknown'') \<and>
   (\<forall>before c rest.
      clients = before @ c # rest \<and> c_id c = k \<and> (\<forall>y \<in> set before. c_id y \<noteq> k) \<longrightarrow>
      getClientNameById clients k = c_name c \<and>
      getClientName_report clients k = c_name c \<and>
      getClientName_pdf clients k = c_name c)"
  by (auto simp: getClientNameById_def getClientName_report_def getClientName_pdf_def
      find_no_match find_first_match)

theorem C2_client_name_lookup_witness:
  "getClientNameById [\<lparr> c_id = ''c1'', c_name = ''Acme'' \<rparr>] ''c2'' = ''Unknown Client'' \<and>
   getClientName_report [\<lparr> c_id = ''c1'', c_name = ''Acme'' \<rparr>] ''c2'' = ''Unknown Client'' \<and>
   getClientName_pdf [\<lparr> c_id = ''c1'', c_name = ''Acme'' \<rparr>] ''c2'' = ''Unknown'' \<and>
   getClientNameById [\<lparr> c_id = ''c1'', c_name = ''Acme'' \<rparr>] ''c1'' = ''Acme'' \<and>
   getClientName_pdf [\<lparr> c_id = ''c1'', c_name = ''Acme'' \<rparr>] ''c1'' = ''Acme''"
proof -
  let ?c = "\<lparr> c_id = ''c1'', c_name = ''Acme'' \<rparr>"
  have dangling: "\<forall>c \<in> set [?c]. c_id c \<noteq> ''c2''" by simp
  have matching: "[?c] = [] @ ?c # [] \<and> c_id ?c = ''c1'' \<and> (\<forall>y \<in> set []. c_id y \<noteq> ''c1'')"
    by simp
  note fallback = C2_client_name_lookup [of "[?c]" "''c2''", THEN conjunct1, THEN mp, OF dangling]
  note found = C2_client_name_lookup [of "[?c]" "''c1''", THEN conjunct2, THEN spec, THEN spec,
      THEN spec, THEN mp, OF matching]
  from fallback found show ?thesis by simp
qed

text \<open>
  The claim as written fails for the PDF generator's lookup: with no client loaded it
  answers \<open>Unknown\<close>, not \<open>Unknown Client\<close>.
\<close>

theorem C2_pdf_fallback_counterexample:
  "getClientName_pdf [] ''c9'' \<noteq> ''Unknown Client''"
  by (simp add: getClientName_pdf_def)

subsection \<open>Sums without rounding\<close>

lemma bits_le: "n < 2 ^ k \<Longrightarrow> bits n \<le> k"
proof (induction k arbitrary: n)
  case 0
  then show ?case by (simp add: bits.simps)
next
  case (Suc k)
  show ?case
  proof (cases "n = 0")
    case True
    then show ?thesis by (simp add: bits.simps)
  next
    case False
    from Suc.prems have "n div 2 < 2 ^ k" by simp
    then have "bits (n div 2) \<le> k" by (rule Suc.IH)
    with False show ?thesis by (subst bits.simps) simp
  qed
qed

lemma dround_exact:
  assumes "0 \<le> M" and "M < 2 ^ 53" and "M = 0 \<or> E \<le> 971"
  shows "dround M E = Number (M, E)"
proof -
  from assms have "nat \<bar>M\<bar> < 2 ^ 53" by (simp add: nat_less_iff)
  then have b: "bits (nat \<bar>M\<bar>) \<le> 53" by (rule bits_le)
  with assms show ?thesis by (auto simp: dround_def Let_def)
qed

lemma holds_zero: "isUnits q zero 0"
  by (simp add: isUnits_def zero_def)

lemma holds_or_zero: "isUnits q x n \<Longrightarrow> isUnits q (or_zero_num (Some x)) n"
  by (auto simp: isUnits_def or_zero_num_def zero_def)

lemma inUnits_holds: "inUnits q f \<Longrightarrow> \<exists>y. f = Some y \<and> isUnits q y (units q f)"
  by (auto simp: inUnits_def units_def isUnits_def split: option.splits jsnum.splits)

lemma js_add_holds:
  assumes x: "isUnits q x n" and y: "isUnits q y k" and small: "n + k < 2 ^ 53"
  shows "isUnits q (js_add x y) (n + k)"
proof -
  from x obtain m1 e1 where x': "x = Number (m1, e1)" "0 \<le> m1" "- int q \<le> e1"
    "nat m1 * 2 ^ nat (e1 + int q) = n" by (auto simp: isUnits_def)
  from y obtain m2 e2 where y': "y = Number (m2, e2)" "0 \<le> m2" "- int q \<le> e2"
    "nat m2 * 2 ^ nat (e2 + int q) = k" by (auto simp: isUnits_def)
  define E where "E = min e1 e2"
  define M where "M = m1 * 2 ^ nat (e1 - E) + m2 * 2 ^ nat (e2 - E)"
  have E: "- int q \<le> E" "E \<le> e1" "E \<le> e2" using x' y' by (simp_all add: E_def)
  have M0: "0 \<le> M" using x' y' by (simp add: M_def)
  have p1: "nat (e1 - E) + nat (E + int q) = nat (e1 + int q)" using E by simp
  have p2: "nat (e2 - E) + nat (E + int q) = nat (e2 + int q)" using E by simp
  have "nat M = nat m1 * 2 ^ nat (e1 - E) + nat m2 * 2 ^ nat (e2 - E)"
    using x' y' by (simp add: M_def nat_add_distrib nat_mult_distrib nat_power_eq)
  then have "nat M * 2 ^ nat (E + int q)
      = nat m1 * (2 ^ nat (e1 - E) * 2 ^ nat (E + int q))
        + nat m2 * (2 ^ nat (e2 - E) * 2 ^ nat (E + int q))"
    by (simp add: algebra_simps)
  also have "\<dots> = n + k"
    unfolding power_add [symmetric] p1 p2 using x' y' by simp
  finally have u: "nat M * 2 ^ nat (E + int q) = n + k" .
  have "nat M * 1 \<le> nat M * 2 ^ nat (E + int q)" by (rule mult_le_mono2) simp
  with u small have "nat M < 2 ^ 53" by simp
  with M0 have M53: "M < 2 ^ 53" by (simp add: nat_less_iff)
  have "M = 0 \<or> E \<le> 971"
  proof (cases "M = 0")
    case False
    with M0 have "1 \<le> nat M" by simp
    then have "1 * 2 ^ nat (E + int q) \<le> nat M * 2 ^ nat (E + int q)" by (rule mult_le_mono1)
    with u small have "(2::nat) ^ nat (E + int q) < 2 ^ 53" by simp
    from power_less_imp_less_exp [OF _ this] have "nat (E + int q) < 53" by simp
    then have "E \<le> 971" by linarith
    then show ?thesis ..
  qed simp
  with M0 M53 have "dround M E = Number (M, E)" by (rule dround_exact)
  then have "js_add x y = Number (M, E)" by (simp add: x' y' Let_def M_def E_def)
  with M0 E u show ?thesis by (auto simp: isUnits_def)
qed

lemma plusField_holds:
  assumes "isUnits q x n" and "inUnits q f" and "n + units q f < 2 ^ 53"
  shows "isUnits q (plusField x f) (n + units q f)"
proof -
  from inUnits_holds [OF assms(2)] obtain y where "f = Some y" "isUnits q y (units q f)" by blast
  with js_add_holds [OF assms(1) this(2) assms(3)] show ?thesis by (simp add: plusField_def)
qed

lemma total_holds:
  assumes "isUnits q acc n" and "\<forall>e \<in> set es. inUnits q (f e)"
    and "n + sum_list (map (\<lambda>e. units q (f e)) es) < 2 ^ 53"
  shows "isUnits q (foldl (\<lambda>sum e. plusField sum (f e)) acc es) (n + sum_list (map (\<lambda>e. units q (f e)) es))"
  using assms
proof (induction es arbitrary: acc n)
  case Nil
  then show ?case by simp
next
  case (Cons e es)
  have "isUnits q (plusField acc (f e)) (n + units q (f e))"
    using Cons.prems by (intro plusField_holds) simp_all
  from Cons.IH [OF this] Cons.prems show ?case by (simp add: add.assoc)
qed

lemma holds_value: "isUnits q x n \<Longrightarrow> isFinite x \<and> numberValue x = real n / 2 ^ q"
proof -
  assume "isUnits q x n"
  then obtain m e where x: "x = Number (m, e)" "0 \<le> m" "- int q \<le> e"
    "nat m * 2 ^ nat (e + int q) = n" by (auto simp: isUnits_def)
  have "dval (m, e) * 2 ^ q = real n"
  proof (cases "0 \<le> e")
    case True
    then have "nat (e + int q) = nat e + q" by simp
    with x True show ?thesis by (auto simp: dval_def power_add)
  next
    case False
    with x have "q = nat (e + int q) + nat (- e)" by simp
    then have "(2::real) ^ q = 2 ^ nat (e + int q) * 2 ^ nat (- e)" by (metis power_add)
    with x False show ?thesis by (auto simp: dval_def)
  qed
  then have "dval (m, e) = real n / 2 ^ q" by (simp add: field_simps)
  with x show ?thesis by (simp add: isFinite_def numberValue_def)
qed

lemma fieldValue_units: "inUnits q f \<Longrightarrow> fieldValue f = real (units q f) / 2 ^ q"
proof -
  assume "inUnits q f"
  from inUnits_holds [OF this] obtain y where f: "f = Some y" "isUnits q y (units q f)" by blast
  from holds_value [OF f(2)] f(1) show ?thesis by (auto simp: fieldValue_def numberValue_def)
qed

lemma sum_fieldValue:
  "\<forall>e \<in> set es. inUnits q (f e) \<Longrightarrow>
   sum_list (map (\<lambda>e. fieldValue (f e)) es) = real (sum_list (map (\<lambda>e. units q (f e)) es)) / 2 ^ q"
  by (induction es) (simp_all add: fieldValue_units add_divide_distrib)

subsection \<open>Grouping is a partition\<close>

lemma pick_one:
  "distinct ks \<Longrightarrow> a \<in> set ks \<Longrightarrow> sum_list (map (\<lambda>k. if a = k then c else (0::nat)) ks) = c"
  by (induction ks) auto

lemma partition_sum:
  fixes g :: "'a \<Rightarrow> nat"
  assumes "distinct ks" and "f ` set xs \<subseteq> set ks"
  shows "sum_list (map (\<lambda>k. sum_list (map g (filter (\<lambda>x. f x = k) xs))) ks) = sum_list (map g xs)"
  using assms(2)
proof (induction xs)
  case Nil
  show ?case by simp
next
  case (Cons x xs)
  have "sum_list (map (\<lambda>k. sum_list (map g (filter (\<lambda>y. f y = k) (x # xs)))) ks)
      = sum_list (map (\<lambda>k. (if f x = k then g x else 0)
                              + sum_list (map g (filter (\<lambda>y. f y = k) xs))) ks)"
    by (intro arg_cong [where f = sum_list] map_cong) auto
  also have "\<dots> = sum_list (map (\<lambda>k. if f x = k then g x else 0) ks)
      + sum_list (map (\<lambda>k. sum_list (map g (filter (\<lambda>y. f y = k) xs))) ks)"
    by (rule sum_list_addf)
  also have "\<dots> = g x + sum_list (map g xs)"
    using Cons assms(1) by (simp add: pick_one)
  finally show ?case by simp
qed

lemma filter_sum_le:
  fixes g :: "'a \<Rightarrow> nat"
  shows "sum_list (map g (filter P xs)) \<le> sum_list (map g xs)"
  by (induction xs) auto

lemma sum_real_units:
  "sum_list (map (\<lambda>k. real (N k) / 2 ^ q) ks) = real (sum_list (map N ks)) / 2 ^ q"
  by (induction ks) (simp_all add: add_divide_distrib)

lemma clientHours_step_get:
  "obj_get (clientHours_step obj e) k =
     (if k = te_clientId e then Some (plusField (or_zero_num (obj_get obj k)) (te_hours e))
      else obj_get obj k)"
  by (simp add: clientHours_step_def obj_get_set)

lemma clientHours_fold_get:
  "obj_get (foldl clientHours_step acc es) k =
     foldl (\<lambda>v e. Some (plusField (or_zero_num v) (te_hours e))) (obj_get acc k)
       (filter (\<lambda>e. te_clientId e = k) es)"
  by (induction es arbitrary: acc) (simp_all add: clientHours_step_get)

lemma clientHours_fold_distinct:
  "distinct (map fst acc) \<Longrightarrow> distinct (map fst (foldl clientHours_step acc es))"
  by (induction es arbitrary: acc)
     (simp_all add: clientHours_step_def keys_obj_set obj_get_None_iff)

lemma keys_obj_set_set: "set (map fst (obj_set obj k v)) = insert k (set (map fst obj))"
  unfolding keys_obj_set by (auto simp: obj_get_None_iff)

lemma clientHours_fold_keys:
  "set (map fst (foldl clientHours_step acc es)) = set (map fst acc) \<union> te_clientId ` set es"
proof (induction es arbitrary: acc)
  case Nil
  show ?case by simp
next
  case (Cons e es)
  have "set (map fst (clientHours_step acc e)) = insert (te_clientId e) (set (map fst acc))"
    unfolding clientHours_step_def by (rule keys_obj_set_set)
  with Cons [of "clientHours_step acc e"] show ?case by simp
qed

lemma or_zero_holds:
  "(case v of None \<Rightarrow> n = 0 | Some x \<Rightarrow> isUnits q x n) \<Longrightarrow> isUnits q (or_zero_num v) n"
  by (cases v) (auto simp: holds_or_zero, simp add: or_zero_num_def holds_zero)

lemma client_holds:
  assumes "case v of None \<Rightarrow> n = 0 | Some x \<Rightarrow> isUnits q x n"
    and "\<forall>e \<in> set es. inUnits q (f e)"
    and "n + sum_list (map (\<lambda>e. units q (f e)) es) < 2 ^ 53"
  shows "case foldl (\<lambda>v e. Some (plusField (or_zero_num v) (f e))) v es of
           None \<Rightarrow> es = [] \<and> n = 0
         | Some x \<Rightarrow> isUnits q x (n + sum_list (map (\<lambda>e. units q (f e)) es))"
  using assms
proof (induction es arbitrary: v n)
  case Nil
  then show ?case by (simp split: option.splits)
next
  case (Cons e es)
  have "isUnits q (or_zero_num v) n" using Cons.prems(1) by (rule or_zero_holds)
  then have "isUnits q (plusField (or_zero_num v) (f e)) (n + units q (f e))"
    using Cons.prems by (intro plusField_holds) simp_all
  then have "case Some (plusField (or_zero_num v) (f e)) of
      None \<Rightarrow> n + units q (f e) = 0 | Some x \<Rightarrow> isUnits q x (n + units q (f e))" by simp
  from Cons.IH [OF this] Cons.prems show ?case
    by (auto simp: add.assoc split: option.splits)
qed

lemma hours_exact:
  assumes u: "\<forall>e \<in> set es. inUnits q (te_hours e)"
    and small: "sum_list (map (\<lambda>e. units q (te_hours e)) es) < 2 ^ 53"
  shows "isFinite (totalHours (calculateReport es)) \<and>
      numberValue (totalHours (calculateReport es))
        = sum_list (map (\<lambda>e. fieldValue (te_hours e)) es) \<and>
      (\<forall>(k, v) \<in> set (hoursByClient (calculateReport es)).
          isFinite v \<and>
          numberValue v
            = sum_list (map (\<lambda>e. fieldValue (te_hours e)) (filter (\<lambda>e. te_clientId e = k) es))) \<and>
      sum_list (map (numberValue \<circ> snd) (hoursByClient (calculateReport es)))
        = numberValue (totalHours (calculateReport es))"
proof -
  let ?obj = "foldl clientHours_step [] es"
  let ?N = "\<lambda>k. sum_list (map (\<lambda>e. units q (te_hours e)) (filter (\<lambda>e. te_clientId e = k) es))"
  let ?T = "sum_list (map (\<lambda>e. units q (te_hours e)) es)"
  have "isUnits q (foldl (\<lambda>sum e. plusField sum (te_hours e)) zero es) (0 + ?T)"
    using holds_zero u small by (intro total_holds) simp_all
  then have "isUnits q (totalHours (calculateReport es)) ?T" by (simp add: calculateReport_def)
  from holds_value [OF this]
  have total: "isFinite (totalHours (calculateReport es))"
    "numberValue (totalHours (calculateReport es)) = real ?T / 2 ^ q" by simp_all
  have d: "distinct (map fst ?obj)" by (rule clientHours_fold_distinct) simp
  have keys: "set (map fst ?obj) = te_clientId ` set es"
    using clientHours_fold_keys [of "[]" es] by simp
  have each: "isFinite v \<and> numberValue v = real (?N k) / 2 ^ q" if "(k, v) \<in> set ?obj" for k v
  proof -
    let ?fl = "filter (\<lambda>e. te_clientId e = k) es"
    from that d have "obj_get ?obj k = Some v" by (simp add: obj_get_distinct)
    then have f: "foldl (\<lambda>v e. Some (plusField (or_zero_num v) (te_hours e))) None ?fl = Some v"
      by (simp add: clientHours_fold_get)
    have "?N k \<le> ?T" by (rule filter_sum_le)
    with small have "0 + ?N k < 2 ^ 53" by simp
    moreover have "\<forall>e \<in> set ?fl. inUnits q (te_hours e)" using u by simp
    moreover have "case None :: jsnum option of None \<Rightarrow> (0::nat) = 0 | Some x \<Rightarrow> isUnits q x 0" by simp
    ultimately have "case foldl (\<lambda>v e. Some (plusField (or_zero_num v) (te_hours e))) None ?fl of
           None \<Rightarrow> ?fl = [] \<and> (0::nat) = 0
         | Some x \<Rightarrow> isUnits q x (0 + ?N k)"
      by (intro client_holds)
    with f have "isUnits q v (?N k)" by simp
    then show ?thesis by (rule holds_value)
  qed
  have part: "sum_list (map ?N (map fst ?obj)) = ?T"
    using d by (rule partition_sum) (simp add: keys [symmetric])
  have "sum_list (map (numberValue \<circ> snd) ?obj) = sum_list (map (\<lambda>x. real (?N (fst x)) / 2 ^ q) ?obj)"
    by (intro arg_cong [where f = sum_list] map_cong) (auto simp: each)
  also have "\<dots> = sum_list (map (\<lambda>k. real (?N k) / 2 ^ q) (map fst ?obj))"
    by (simp add: comp_def)
  also have "\<dots> = real (sum_list (map ?N (map fst ?obj))) / 2 ^ q" by (rule sum_real_units)
  also have "\<dots> = numberValue (totalHours (calculateReport es))" by (simp only: part total)
  finally have sums: "sum_list (map (numberValue \<circ> snd) (hoursByClient (calculateReport es)))
      = numberValue (totalHours (calculateReport es))"
    by (simp add: calculateReport_def)
  have vals: "\<forall>(k, v) \<in> set (hoursByClient (calculateReport es)).
      isFinite v \<and>
      numberValue v = sum_list (map (\<lambda>e. fieldValue (te_hours e)) (filter (\<lambda>e. te_clientId e = k) es))"
  proof (clarify, intro conjI)
    fix k v
    assume "(k, v) \<in> set (hoursByClient (calculateReport es))"
    then have m: "(k, v) \<in> set ?obj" by (simp add: calculateReport_def)
    from each [OF m] show "isFinite v" ..
    have "\<forall>e \<in> set (filter (\<lambda>e. te_clientId e = k) es). inUnits q (te_hours e)" using u by simp
    from sum_fieldValue [OF this] each [OF m]
    show "numberValue v = sum_list (map (\<lambda>e. fieldValue (te_hours e)) (filter (\<lambda>e. te_clientId e = k) es))"
      by simp
  qed
  from total sum_fieldValue [OF u] sums vals show ?thesis by simp
qed

lemma hours_keys:
  "distinct (map fst (hoursByClient (calculateReport es))) \<and>
   set (map fst (hoursByClient (calculateReport es))) = te_clientId ` set es"
  by (simp add: calculateReport_def clientHours_fold_distinct clientHours_fold_keys
      del: set_map)

lemma obj_modify_total:
  "obj_get obj k \<noteq> None \<Longrightarrow>
   sum_list (map (ci_total \<circ> snd) (obj_modify obj k (\<lambda>s. s\<lparr> ci_total := Suc (ci_total s) \<rparr>)))
     = Suc (sum_list (map (ci_total \<circ> snd) obj))"
  by (induction obj) auto

lemma obj_modify_total_amount:
  "sum_list (map (ci_total \<circ> snd) (obj_modify obj k (\<lambda>s. s\<lparr> ci_amount := g s \<rparr>)))
     = sum_list (map (ci_total \<circ> snd) obj)"
  by (induction obj) auto

lemma clientInvoices_step_total:
  "sum_list (map (ci_total \<circ> snd) (clientInvoices_step obj i))
     = sum_list (map (ci_total \<circ> snd) obj) + 1"
  by (simp add: clientInvoices_step_def Let_def obj_modify_total obj_modify_total_amount
      obj_get_set obj_set_new_sum)

lemma clientInvoices_fold_total:
  "sum_list (map (ci_total \<circ> snd) (foldl clientInvoices_step acc is))
     = sum_list (map (ci_total \<circ> snd) acc) + length is"
  by (induction "is" arbitrary: acc) (simp_all add: clientInvoices_step_total)

lemma clientTasks_step_get:
  "obj_get (clientTasks_step obj t) k =
     (if k = rt_clientId t
      then Some (bump_status (rt_status t)
             (case obj_get obj k of None \<Rightarrow> \<lparr> ct_completed = 0, ct_pending = 0 \<rparr> | Some s \<Rightarrow> s))
      else obj_get obj k)"
  by (auto simp: clientTasks_step_def Let_def obj_get_modify obj_get_set)

lemma clientTasks_step_distinct:
  "distinct (map fst obj) \<Longrightarrow> distinct (map fst (clientTasks_step obj t))"
  by (auto simp: clientTasks_step_def Let_def keys_obj_modify keys_obj_set obj_get_None_iff)

lemma clientTasks_fold_distinct:
  "distinct (map fst acc) \<Longrightarrow> distinct (map fst (foldl clientTasks_step acc ts))"
  by (induction ts arbitrary: acc) (simp_all add: clientTasks_step_distinct)

lemma clientTasks_fold_get:
  "obj_get (foldl clientTasks_step acc ts) k =
     (case obj_get acc k of
        None \<Rightarrow> (if k \<in> rt_clientId ` set ts
                  then Some \<lparr> ct_completed = countStatus k ''completed'' ts,
                              ct_pending = countStatus k ''pending'' ts \<rparr>
                  else None)
      | Some s \<Rightarrow> Some \<lparr> ct_completed = ct_completed s + countStatus k ''completed'' ts,
                          ct_pending = ct_pending s + countStatus k ''pending'' ts \<rparr>)"
proof (induction ts arbitrary: acc)
  case Nil
  show ?case by (simp add: countStatus_def split: option.splits)
next
  case (Cons t ts)
  show ?case
    by (simp add: Cons.IH clientTasks_step_get bump_status_def countStatus_def
        split: option.splits)
qed

lemma getTasksByClient_rows:
  "list_all (\<lambda>r. row_total r = row_completed r + row_pending r
        \<and> row_completed r = countStatus (row_clientId r) ''completed'' tasks
        \<and> row_pending r = countStatus (row_clientId r) ''pending'' tasks)
     (getTasksByClient tasks clients)"
proof -
  let ?obj = "foldl clientTasks_step [] tasks"
  have d: "distinct (map fst ?obj)" by (rule clientTasks_fold_distinct) simp
  have "ct_completed s = countStatus k ''completed'' tasks \<and>
        ct_pending s = countStatus k ''pending'' tasks" if "(k, s) \<in> set ?obj" for k s
  proof -
    from that d have "obj_get ?obj k = Some s" by (simp add: obj_get_distinct)
    then show ?thesis by (auto simp: clientTasks_fold_get split: if_splits)
  qed
  then show ?thesis
    by (auto simp: getTasksByClient_def list_all_iff taskRow_def Let_def)
qed


lemma clientInvoices_step_get:
  "obj_get (clientInvoices_step obj i) k =
     (if k = ri_clientId i
      then Some (let s = (case obj_get obj k of
                            None \<Rightarrow> \<lparr> ci_total = 0, ci_amount = zero \<rparr> | Some s \<Rightarrow> s)
                 in \<lparr> ci_total = ci_total s + 1,
                      ci_amount = plusField (ci_amount s) (ri_amount i) \<rparr>)
      else obj_get obj k)"
  by (auto simp: clientInvoices_step_def Let_def obj_get_modify obj_get_set)

lemma clientInvoices_fold_get:
  "obj_get (foldl clientInvoices_step acc is) k =
     (case obj_get acc k of
        None \<Rightarrow>
          (if k \<in> ri_clientId ` set is
           then Some \<lparr> ci_total = length (filter (\<lambda>i. ri_clientId i = k) is),
                       ci_amount = foldl (\<lambda>sum i. plusField sum (ri_amount i)) zero
                                     (filter (\<lambda>i. ri_clientId i = k) is) \<rparr>
           else None)
      | Some s \<Rightarrow>
          Some \<lparr> ci_total = ci_total s + length (filter (\<lambda>i. ri_clientId i = k) is),
                 ci_amount = foldl (\<lambda>sum i. plusField sum (ri_amount i)) (ci_amount s)
                               (filter (\<lambda>i. ri_clientId i = k) is) \<rparr>)"
proof (induction "is" arbitrary: acc)
  case Nil
  show ?case by (simp split: option.splits)
next
  case (Cons i "is")
  show ?case
    by (simp add: Cons.IH clientInvoices_step_get Let_def split: option.splits)
qed

lemma clientInvoices_step_distinct:
  "distinct (map fst obj) \<Longrightarrow> distinct (map fst (clientInvoices_step obj i))"
  by (auto simp: clientInvoices_step_def Let_def keys_obj_modify keys_obj_set obj_get_None_iff)

lemma clientInvoices_fold_distinct:
  "distinct (map fst acc) \<Longrightarrow> distinct (map fst (foldl clientInvoices_step acc is))"
  by (induction "is" arbitrary: acc) (simp_all add: clientInvoices_step_distinct)

lemma invoices_keys:
  "distinct (map fst (clientInvoices invoices)) \<and>
   set (map fst (clientInvoices invoices)) = ri_clientId ` set invoices"
proof
  show "distinct (map fst (clientInvoices invoices))"
    unfolding clientInvoices_def by (rule clientInvoices_fold_distinct) simp
  have "obj_get (clientInvoices invoices) k = None \<longleftrightarrow> k \<notin> ri_clientId ` set invoices" for k
    by (simp add: clientInvoices_def clientInvoices_fold_get)
  then have "k \<in> fst ` set (clientInvoices invoices) \<longleftrightarrow> k \<in> ri_clientId ` set invoices" for k
    by (simp add: obj_get_None_iff)
  then show "set (map fst (clientInvoices invoices)) = ri_clientId ` set invoices" by auto
qed

lemma invoices_each:
  assumes "(k, v) \<in> set (clientInvoices invoices)"
  shows "ci_total v = length (filter (\<lambda>i. ri_clientId i = k) invoices) \<and>
         ci_amount v = foldl (\<lambda>sum i. plusField sum (ri_amount i)) zero
                         (filter (\<lambda>i. ri_clientId i = k) invoices)"
proof -
  from assms invoices_keys have "obj_get (clientInvoices invoices) k = Some v"
    by (simp add: obj_get_distinct)
  then show ?thesis
    by (auto simp: clientInvoices_def clientInvoices_fold_get split: if_splits)
qed

lemma amounts_exact:
  assumes u: "\<forall>i \<in> set invoices. inUnits p (ri_amount i)"
    and small: "sum_list (map (\<lambda>i. units p (ri_amount i)) invoices) < 2 ^ 53"
  shows "isFinite (totalAmount invoices) \<and>
      numberValue (totalAmount invoices)
        = sum_list (map (\<lambda>i. fieldValue (ri_amount i)) invoices) \<and>
      (\<forall>(k, v) \<in> set (clientInvoices invoices).
          isFinite (ci_amount v) \<and>
          numberValue (ci_amount v)
            = sum_list (map (\<lambda>i. fieldValue (ri_amount i))
                          (filter (\<lambda>i. ri_clientId i = k) invoices))) \<and>
      sum_list (map (numberValue \<circ> ci_amount \<circ> snd) (clientInvoices invoices))
        = numberValue (totalAmount invoices)"
proof -
  let ?obj = "clientInvoices invoices"
  let ?N = "\<lambda>k. sum_list (map (\<lambda>i. units p (ri_amount i)) (filter (\<lambda>i. ri_clientId i = k) invoices))"
  let ?T = "sum_list (map (\<lambda>i. units p (ri_amount i)) invoices)"
  have "isUnits p (foldl (\<lambda>sum i. plusField sum (ri_amount i)) zero invoices) (0 + ?T)"
    using holds_zero u small by (intro total_holds) simp_all
  then have "isUnits p (totalAmount invoices) ?T" by (simp add: totalAmount_def)
  from holds_value [OF this]
  have total: "isFinite (totalAmount invoices)"
    "numberValue (totalAmount invoices) = real ?T / 2 ^ p" by simp_all
  have each: "isFinite (ci_amount v) \<and> numberValue (ci_amount v) = real (?N k) / 2 ^ p"
    if "(k, v) \<in> set ?obj" for k v
  proof -
    let ?fl = "filter (\<lambda>i. ri_clientId i = k) invoices"
    have "?N k \<le> ?T" by (rule filter_sum_le)
    with small have "0 + ?N k < 2 ^ 53" by simp
    moreover have "\<forall>i \<in> set ?fl. inUnits p (ri_amount i)" using u by simp
    ultimately have "isUnits p (foldl (\<lambda>sum i. plusField sum (ri_amount i)) zero ?fl) (0 + ?N k)"
      using holds_zero by (intro total_holds)
    with invoices_each [OF that] have "isUnits p (ci_amount v) (?N k)" by simp
    then show ?thesis by (rule holds_value)
  qed
  have part: "sum_list (map ?N (map fst ?obj)) = ?T"
    using invoices_keys by (intro partition_sum) simp_all
  have "sum_list (map (numberValue \<circ> ci_amount \<circ> snd) ?obj)
      = sum_list (map (\<lambda>x. real (?N (fst x)) / 2 ^ p) ?obj)"
    by (intro arg_cong [where f = sum_list] map_cong) (auto simp: each)
  also have "\<dots> = sum_list (map (\<lambda>k. real (?N k) / 2 ^ p) (map fst ?obj))"
    by (simp add: comp_def)
  also have "\<dots> = real (sum_list (map ?N (map fst ?obj))) / 2 ^ p" by (rule sum_real_units)
  also have "\<dots> = numberValue (totalAmount invoices)" by (simp only: part total)
  finally have sums: "sum_list (map (numberValue \<circ> ci_amount \<circ> snd) ?obj)
      = numberValue (totalAmount invoices)" .
  have vals: "\<forall>(k, v) \<in> set ?obj.
      isFinite (ci_amount v) \<and>
      numberValue (ci_amount v)
        = sum_list (map (\<lambda>i. fieldValue (ri_amount i)) (filter (\<lambda>i. ri_clientId i = k) invoices))"
  proof (clarify, intro conjI)
    fix k v
    assume m: "(k, v) \<in> set ?obj"
    from each [OF m] show "isFinite (ci_amount v)" ..
    have "\<forall>i \<in> set (filter (\<lambda>i. ri_clientId i = k) invoices). inUnits p (ri_amount i)"
      using u by simp
    from sum_fieldValue [OF this] each [OF m]
    show "numberValue (ci_amount v)
        = sum_list (map (\<lambda>i. fieldValue (ri_amount i)) (filter (\<lambda>i. ri_clientId i = k) invoices))"
      by simp
  qed
  from total sum_fieldValue [OF u] sums vals show ?thesis by simp
qed

lemma tasks_keys:
  "distinct (map row_clientId (getTasksByClient tasks clients)) \<and>
   set (map row_clientId (getTasksByClient tasks clients)) = rt_clientId ` set tasks"
proof -
  let ?obj = "foldl clientTasks_step [] tasks"
  have m: "map row_clientId (getTasksByClient tasks clients) = map fst ?obj"
    by (simp add: getTasksByClient_def taskRow_def Let_def comp_def)
  have d: "distinct (map fst ?obj)" by (rule clientTasks_fold_distinct) simp
  have "obj_get ?obj k = None \<longleftrightarrow> k \<notin> rt_clientId ` set tasks" for k
    by (simp add: clientTasks_fold_get)
  then have "k \<in> fst ` set ?obj \<longleftrightarrow> k \<in> rt_clientId ` set tasks" for k
    by (simp add: obj_get_None_iff)
  then have "set (map fst ?obj) = rt_clientId ` set tasks" by auto
  with d m show ?thesis by simp
qed

text \<open>
  C4 (as amended). Grouping by client is a partition: every client that occurs has
  exactly one row, and the rows of a client cover that client's records only.
  The invoice counts of the clients are the numbers of their invoices and add up to the
  number of invoices; in every row of \<open>getTasksByClient\<close> the total is the completed
  count plus the pending count, which are the numbers of that client's tasks with
  these statuses. The hours and the amounts are doubles: when every figure is a whole
  number of units of one power of two \<open>2^-q\<close> and all of them together stay below \<open>2^53\<close>
  units, no addition rounds, so the total and every client's figure are the exact sums
  of their records and the clients' figures add up exactly to the total.
\<close>

theorem C4_grouping_partition:
  "((\<forall>e \<in> set timeEntries. inUnits q (te_hours e)) \<and>
    sum_list (map (\<lambda>e. units q (te_hours e)) timeEntries) < 2 ^ 53 \<longrightarrow>
      isFinite (totalHours (calculateReport timeEntries)) \<and>
      numberValue (totalHours (calculateReport timeEntries))
        = sum_list (map (\<lambda>e. fieldValue (te_hours e)) timeEntries) \<and>
      (\<forall>(k, v) \<in> set (hoursByClient (calculateReport timeEntries)).
          isFinite v \<and>
          numberValue v
            = sum_list (map (\<lambda>e. fieldValue (te_hours e))
                         (filter (\<lambda>e. te_clientId e = k) timeEntries))) \<and>
      sum_list (map (numberValue \<circ> snd) (hoursByClient (calculateReport timeEntries)))
        = numberValue (totalHours (calculateReport timeEntries))) \<and>
   (distinct (map fst (hoursByClient (calculateReport timeEntries))) \<and>
    set (map fst (hoursByClient (calculateReport timeEntries))) = te_clientId ` set timeEntries) \<and>
   ((\<forall>i \<in> set invoices. inUnits p (ri_amount i)) \<and>
    sum_list (map (\<lambda>i. units p (ri_amount i)) invoices) < 2 ^ 53 \<longrightarrow>
      isFinite (totalAmount invoices) \<and>
      numberValue (totalAmount invoices)
        = sum_list (map (\<lambda>i. fieldValue (ri_amount i)) invoices) \<and>
      (\<forall>(k, v) \<in> set (clientInvoices invoices).
          isFinite (ci_amount v) \<and>
          numberValue (ci_amount v)
            = sum_list (map (\<lambda>i. fieldValue (ri_amount i))
                          (filter (\<lambda>i. ri_clientId i = k) invoices))) \<and>
      sum_list (map (numberValue \<circ> ci_amount \<circ> snd) (clientInvoices invoices))
        = numberValue (totalAmount invoices)) \<and>
   sum_list (map (ci_total \<circ> snd) (clientInvoices invoices)) = length invoices \<and>
   (\<forall>(k, v) \<in> set (clientInvoices invoices).
      ci_total v = length (filter (\<lambda>i. ri_clientId i = k) invoices)) \<and>
   (distinct (map fst (clientInvoices invoices)) \<and>
    set (map fst (clientInvoices invoices)) = ri_clientId ` set invoices) \<and>
   list_all (\<lambda>r. row_total r = row_completed r + row_pending r
        \<and> row_completed r = countStatus (row_clientId r) ''completed'' tasks
        \<and> row_pending r = countStatus (row_clientId r) ''pending'' tasks)
     (getTasksByClient tasks clients) \<and>
   (distinct (map row_clientId (getTasksByClient tasks clients)) \<and>
    set (map row_clientId (getTasksByClient tasks clients)) = rt_clientId ` set tasks)"
  (is "?hours \<and> ?hourKeys \<and> ?amounts \<and> ?countSum \<and> ?counts \<and> ?invoiceKeys \<and> ?rows \<and> ?rowKeys")
proof -
  have c1: ?hours by (rule impI, rule hours_exact, erule conjunct1, erule conjunct2)
  have c2: ?hourKeys by (rule hours_keys)
  have c3: ?amounts by (rule impI, rule amounts_exact, erule conjunct1, erule conjunct2)
  have c4: ?countSum by (simp add: clientInvoices_def clientInvoices_fold_total)
  have c5: ?counts using invoices_each by blast
  have c6: ?invoiceKeys by (rule invoices_keys)
  have c7: ?rows by (rule getTasksByClient_rows)
  have c8: ?rowKeys by (rule tasks_keys)
  show ?thesis
    by (rule conjI [OF c1 conjI [OF c2 conjI [OF c3 conjI [OF c4 conjI [OF c5 conjI [OF c6
        conjI [OF c7 c8]]]]]]])
qed

lemma small_sum:
  "js_add (Number (m1, e1)) (Number (m2, e2))
     = dround (m1 * 2 ^ nat (e1 - min e1 e2) + m2 * 2 ^ nat (e2 - min e1 e2)) (min e1 e2)"
  by (simp add: Let_def)

lemma quarterEntries_report:
  "hoursByClient (calculateReport quarterEntries)
     = [(''c1'', Number (15, - 2)), (''c2'', Number (4, 0))]"
  "totalHours (calculateReport quarterEntries) = Number (31, - 2)"
  by (simp_all add: calculateReport_def quarterEntries_def timeEntry_def clientHours_step_def
      plusField_def or_zero_num_def zero_def dround_exact del: js_add.simps add: small_sum)

lemma halfInvoices_report:
  "clientInvoices halfInvoices
     = [(''c1'', \<lparr> ci_total = 2, ci_amount = Number (321, - 1) \<rparr>),
        (''c2'', \<lparr> ci_total = 1, ci_amount = Number (80, 0) \<rparr>)]"
  "totalAmount halfInvoices = Number (481, - 1)"
  by (simp_all add: clientInvoices_def totalAmount_def halfInvoices_def reportInvoice_def
      clientInvoices_step_def Let_def plusField_def zero_def dround_exact
      del: js_add.simps add: small_sum)

lemma sampleTasks_rows:
  "map (\<lambda>r. (row_clientId r, row_completed r, row_pending r, row_total r))
     (getTasksByClient sampleTasks []) = [(''c1'', 1, 1, 2), (''c2'', 0, 1, 1)]"
  by (simp add: getTasksByClient_def sampleTasks_def reportTask_def clientTasks_step_def
      bump_status_def taskRow_def Let_def)

text \<open>
  Quarter hours 1.5, 4 and 2.25 give 3.75 and 4 for the two clients and 7.75 in
  total; amounts 120, 80 and 40.5 give 160.5 and 80 and 240.5 in total.
\<close>

theorem C4_grouping_partition_witness:
  "hoursByClient (calculateReport quarterEntries)
     = [(''c1'', Number (15, - 2)), (''c2'', Number (4, 0))] \<and>
   totalHours (calculateReport quarterEntries) = Number (31, - 2) \<and>
   sum_list (map (numberValue \<circ> snd) (hoursByClient (calculateReport quarterEntries)))
     = numberValue (totalHours (calculateReport quarterEntries)) \<and>
   numberValue (totalHours (calculateReport quarterEntries)) = 31 / 4 \<and>
   clientInvoices halfInvoices
     = [(''c1'', \<lparr> ci_total = 2, ci_amount = Number (321, - 1) \<rparr>),
        (''c2'', \<lparr> ci_total = 1, ci_amount = Number (80, 0) \<rparr>)] \<and>
   totalAmount halfInvoices = Number (481, - 1) \<and>
   sum_list (map (numberValue \<circ> ci_amount \<circ> snd) (clientInvoices halfInvoices))
     = numberValue (totalAmount halfInvoices) \<and>
   numberValue (totalAmount halfInvoices) = 481 / 2 \<and>
   map (\<lambda>r. (row_clientId r, row_completed r, row_pending r, row_total r))
     (getTasksByClient sampleTasks []) = [(''c1'', 1, 1, 2), (''c2'', 0, 1, 1)]"
proof -
  note all = C4_grouping_partition [where q = 2 and timeEntries = quarterEntries and p = 1
      and invoices = halfInvoices and tasks = sampleTasks and clients = "[]"]
  have h: "(\<forall>e \<in> set quarterEntries. inUnits 2 (te_hours e)) \<and>
      sum_list (map (\<lambda>e. units 2 (te_hours e)) quarterEntries) < 2 ^ 53"
    by (simp add: quarterEntries_def timeEntry_def inUnits_def units_def)
  have a: "(\<forall>i \<in> set halfInvoices. inUnits 1 (ri_amount i)) \<and>
      sum_list (map (\<lambda>i. units 1 (ri_amount i)) halfInvoices) < 2 ^ 53"
    by (simp add: halfInvoices_def reportInvoice_def inUnits_def units_def)
  from all [THEN conjunct1, THEN mp, OF h]
  have hours: "sum_list (map (numberValue \<circ> snd) (hoursByClient (calculateReport quarterEntries)))
      = numberValue (totalHours (calculateReport quarterEntries))"
    by (elim conjE)
  from all [THEN conjunct2, THEN conjunct2, THEN conjunct1, THEN mp, OF a]
  have amounts: "sum_list (map (numberValue \<circ> ci_amount \<circ> snd) (clientInvoices halfInvoices))
      = numberValue (totalAmount halfInvoices)"
    by (elim conjE)
  have v1: "numberValue (totalHours (calculateReport quarterEntries)) = 31 / 4"
    by (simp add: quarterEntries_report numberValue_def dval_def)
  have v2: "numberValue (totalAmount halfInvoices) = 481 / 2"
    by (simp add: halfInvoices_report numberValue_def dval_def)
  from hours amounts v1 v2 quarterEntries_report halfInvoices_report sampleTasks_rows
  show ?thesis by (intro conjI)
qed

lemma bits_examples:
  "bits 21617278211378382 = 55" "bits 5404319552844596 = 53"
  "bits 16212958658533786 = 54" "bits 8106479329266893 = 53"
  "bits 50440315826549554 = 56" "bits 6305039478318694 = 53"
  by (simp_all add: bits.simps)

lemma dround_examples:
  "dround 21617278211378382 (- 56) = Number (5404319552844596, - 54)"
  "dround 16212958658533786 (- 54) = Number (8106479329266893, - 53)"
  "dround 50440315826549554 (- 56) = Number (6305039478318694, - 53)"
  by (simp_all add: dround_def Let_def bits_examples roundShift_def)

lemma tenthEntries_report:
  "hoursByClient (calculateReport tenthEntries)
     = [(''c1'', Number (6305039478318694, - 53)), (''c2'', Number (7205759403792794, - 55))]"
  "totalHours (calculateReport tenthEntries) = Number (8106479329266893, - 53)"
  by (simp_all add: calculateReport_def tenthEntries_def timeEntry_def clientHours_step_def
      plusField_def or_zero_num_def zero_def dround_exact dround_examples
      del: js_add.simps add: small_sum)

text \<open>
  The claim as written fails for hours 0.1 and 0.6 of one client and 0.2 of another:
  the clients' figures are 0.7 and 0.2, which add up to less than the reported total of
  0.9 (adding them as doubles gives 0.8999999999999999). It also fails for an invoice
  without an \<open>amount\<close> field, as the invoices page stores them: the total is \<open>NaN\<close>.
\<close>

theorem C4_rounded_sums_counterexample:
  "hoursByClient (calculateReport tenthEntries)
     = [(''c1'', Number (6305039478318694, - 53)), (''c2'', Number (7205759403792794, - 55))] \<and>
   totalHours (calculateReport tenthEntries) = Number (8106479329266893, - 53) \<and>
   sum_list (map (numberValue \<circ> snd) (hoursByClient (calculateReport tenthEntries)))
     < numberValue (totalHours (calculateReport tenthEntries)) \<and>
   totalAmount [reportInvoice ''c1'' None] = NaN \<and>
   map (ci_amount \<circ> snd) (clientInvoices [reportInvoice ''c1'' None]) = [NaN]"
proof (intro conjI)
  show "sum_list (map (numberValue \<circ> snd) (hoursByClient (calculateReport tenthEntries)))
     < numberValue (totalHours (calculateReport tenthEntries))"
    by (simp add: tenthEntries_report numberValue_def dval_def)
  show "totalAmount [reportInvoice ''c1'' None] = NaN"
    by (simp add: totalAmount_def reportInvoice_def plusField_def)
  show "map (ci_amount \<circ> snd) (clientInvoices [reportInvoice ''c1'' None]) = [NaN]"
    by (simp add: clientInvoices_def clientInvoices_step_def reportInvoice_def plusField_def Let_def)
qed (rule tenthEntries_report)+

section \<open>Properties of the CSV export\<close>

lemma js_includes_char: "js_includes s [c] \<longleftrightarrow> c \<in> set s"
  by (induction s) auto

lemma undouble_double: "undoubleQuotes (doubleQuotes s) = s"
proof (induction s)
  case Nil
  show ?case by (simp add: doubleQuotes_def)
next
  case (Cons c s)
  show ?case
  proof (cases "c = CHR 0x22")
    case True
    with Cons show ?thesis by (simp add: doubleQuotes_def)
  next
    case False
    have step: "undoubleQuotes (c # r) = c # undoubleQuotes r" for r
      using False by (cases r) auto
    from False Cons show ?thesis by (simp add: doubleQuotes_def step)
  qed
qed

lemma length_doubleQuotes: "length (doubleQuotes s) = length s + count_list s (CHR 0x22)"
  by (induction s) (auto simp: doubleQuotes_def)

lemma csvField_quoting:
  "csvField s =
     (if CHR '','' \<in> set s \<or> CHR 0x22 \<in> set s \<or> CHR 0x0A \<in> set s
      then CHR 0x22 # doubleQuotes s @ [CHR 0x22] else s)"
  by (simp add: csvField_def js_includes_char)


lemma join_commaLine: "join '','' cells = commaLine cells"
  by (induction "'',''" cells rule: join.induct) (simp_all add: commaLine_def)

lemma join_linesAfter: "join [CHR 0x0A] (header # rows) = linesAfter header rows"
  by (induction rows arbitrary: header) (simp_all add: linesAfter_def)

text \<open>
  C6. For an empty array \<open>exportToCSV\<close> produces no file. For a non-empty one the
  content is the header line, which is the keys of the first record with a comma
  between neighbours, followed for each record in turn by a newline and the record's
  fields in that key order, again with a comma between neighbours. A field is the
  string form of \<open>row[key]\<close> (empty for \<open>null\<close> and \<open>undefined\<close>; for a key that the record
  lacks, the property inherited from the prototype), wrapped in double quotes with
  every inner double quote doubled exactly when it contains a comma, a double quote or
  a newline; undoubling the quotes gives the string form back.
\<close>

theorem C6_exportToCSV:
  "exportToCSV inherited [] filename today = None \<and>
   exportToCSV inherited (first # rest) filename today
     = Some (filename @ ''_'' @ today @ ''.csv'',
             linesAfter (commaLine (map fst first))
               (map (\<lambda>row. commaLine
                              (map (\<lambda>key. csvField (stringValue (getField inherited row key)))
                                 (map fst first)))
                  (first # rest))) \<and>
   commaLine [] = [] \<and>
   commaLine (f # cells) = f @ concat (map (\<lambda>g. CHR '','' # g) cells) \<and>
   linesAfter header rows = header @ concat (map (\<lambda>r. CHR 0x0A # r) rows) \<and>
   getField inherited row key
     = (case obj_get row key of Some v \<Rightarrow> v | None \<Rightarrow> inherited key) \<and>
   csvField s =
     (if CHR '','' \<in> set s \<or> CHR 0x22 \<in> set s \<or> CHR 0x0A \<in> set s
      then CHR 0x22 # doubleQuotes s @ [CHR 0x22] else s) \<and>
   undoubleQuotes (doubleQuotes s) = s \<and>
   length (doubleQuotes s) = length s + count_list s (CHR 0x22) \<and>
   stringValue Null = [] \<and> stringValue Undefined = [] \<and> stringValue (Value s) = s"
proof (intro conjI)
  show "exportToCSV inherited [] filename today = None" by (simp add: exportToCSV_def)
  show "exportToCSV inherited (first # rest) filename today
     = Some (filename @ ''_'' @ today @ ''.csv'',
             linesAfter (commaLine (map fst first))
               (map (\<lambda>row. commaLine
                              (map (\<lambda>key. csvField (stringValue (getField inherited row key)))
                                 (map fst first)))
                  (first # rest)))"
    by (simp add: exportToCSV_def csvContent_def join_commaLine join_linesAfter
        del: join.simps)
  show "commaLine [] = []" by (simp add: commaLine_def)
  show "commaLine (f # cells) = f @ concat (map (\<lambda>g. CHR '','' # g) cells)"
    by (simp add: commaLine_def)
  show "linesAfter header rows = header @ concat (map (\<lambda>r. CHR 0x0A # r) rows)"
    by (simp add: linesAfter_def)
  show "getField inherited row key
     = (case obj_get row key of Some v \<Rightarrow> v | None \<Rightarrow> inherited key)"
    by (simp add: getField_def split: option.splits)
  show "csvField s =
     (if CHR '','' \<in> set s \<or> CHR 0x22 \<in> set s \<or> CHR 0x0A \<in> set s
      then CHR 0x22 # doubleQuotes s @ [CHR 0x22] else s)"
    by (rule csvField_quoting)
  show "undoubleQuotes (doubleQuotes s) = s" by (rule undouble_double)
  show "length (doubleQuotes s) = length s + count_list s (CHR 0x22)"
    by (rule length_doubleQuotes)
qed (simp_all add: stringValue_def)

text \<open>
  The export of two records: the first name holds a comma and is quoted, the second
  holds a double quote, which is doubled inside the quotes; \<open>null\<close> and the key \<open>note\<close>
  that the second record and the prototype both lack give empty fields.
\<close>

theorem C6_exportToCSV_witness:
  "exportToCSV samplePrototype sampleRecords ''report'' ''2025-01-31''
     = Some (''report_2025-01-31.csv'',
             ''name,hours,note'' @ [CHR 0x0A] @
             [CHR 0x22] @ ''Acme, Inc.'' @ [CHR 0x22] @ '',7.5,'' @ [CHR 0x0A] @
             [CHR 0x22, CHR ''6'', CHR 0x22, CHR 0x22] @ '' x'' @ [CHR 0x22] @ '',2,'')"
proof -
  let ?r1 = "[(''name'', Value ''Acme, Inc.''), (''hours'', Value ''7.5''), (''note'', Null)]"
  let ?r2 = "[(''name'', Value [CHR ''6'', CHR 0x22, CHR '' '', CHR ''x'']), (''hours'', Value ''2'')]"
  have d: "sampleRecords = ?r1 # [?r2]" by (simp add: sampleRecords_def)
  note out = C6_exportToCSV [of samplePrototype "''report''" "''2025-01-31''" ?r1 "[?r2]",
      THEN conjunct2, THEN conjunct1]
  show ?thesis
    unfolding d out
    by (simp add: linesAfter_def commaLine_def csvField_def getField_def stringValue_def
        doubleQuotes_def samplePrototype_def)
qed

text \<open>
  A key that a record lacks is read from the prototype: with the header \<open>unit\<close> taken
  from the first record, the second record shows the inherited text, quoted because of
  its comma.
\<close>

lemma exportToCSV_inherited_example:
  "exportToCSV samplePrototype [[(''unit'', Value ''h'')], []] ''r'' ''2025-01-31''
     = Some (''r_2025-01-31.csv'',
             ''unit'' @ [CHR 0x0A] @ ''h'' @ [CHR 0x0A] @ [CHR 0x22] @ ''h, min'' @ [CHR 0x22])"
  by (simp add: exportToCSV_def csvContent_def csvField_def getField_def stringValue_def
      doubleQuotes_def samplePrototype_def)

section \<open>Properties of the invoices page\<close>

subsection \<open>Printing and reading decimal numbers\<close>

















subsection \<open>Invoice numbers\<close>









subsection \<open>The filter effect\<close>












subsection \<open>Failing remote calls\<close>

lemma nextFault_collections:
  "fs_invoices (snd (nextFault fs)) = fs_invoices fs"
  "fs_clients (snd (nextFault fs)) = fs_clients fs"
  "fs_autoId (snd (nextFault fs)) = fs_autoId fs"
  by (simp_all add: nextFault_def split: list.splits)

lemma getDocs_invoices_store:
  "fs_invoices (snd (getDocs_invoices uid fs)) = fs_invoices fs"
  "fs_clients (snd (getDocs_invoices uid fs)) = fs_clients fs"
  using nextFault_collections[of fs]
  by (auto simp: getDocs_invoices_def split: prod.splits)

lemma getDocs_clients_store:
  "fs_invoices (snd (getDocs_clients uid fs)) = fs_invoices fs"
  "fs_clients (snd (getDocs_clients uid fs)) = fs_clients fs"
  using nextFault_collections[of fs]
  by (auto simp: getDocs_clients_def split: prod.splits)

lemma rejected_store:
  "fst (addDoc_invoices data fs) = Inl e \<Longrightarrow>
     fs_invoices (snd (addDoc_invoices data fs)) = fs_invoices fs \<and>
     fs_clients (snd (addDoc_invoices data fs)) = fs_clients fs"
  "fst (updateDoc_invoices docId change fs) = Inl e \<Longrightarrow>
     fs_invoices (snd (updateDoc_invoices docId change fs)) = fs_invoices fs \<and>
     fs_clients (snd (updateDoc_invoices docId change fs)) = fs_clients fs"
  "fst (deleteDoc_invoices docId fs) = Inl e \<Longrightarrow>
     fs_invoices (snd (deleteDoc_invoices docId fs)) = fs_invoices fs \<and>
     fs_clients (snd (deleteDoc_invoices docId fs)) = fs_clients fs"
  using nextFault_collections[of fs]
  by (auto simp: addDoc_invoices_def updateDoc_invoices_def deleteDoc_invoices_def Let_def
      split: prod.splits if_splits)

lemma invoiceData_isLoading:
  "invoiceData uid values now (st\<lparr> ip_isLoading := b \<rparr>) = invoiceData uid values now st"
  by (simp add: invoiceData_def Let_def split: option.splits)

lemma fetchInvoices_fails:
  "(case fst (getDocs_invoices uid fs) of Inl e \<Rightarrow> Inl e | Inr docs \<Rightarrow> toInvoices docs) = Inl e \<Longrightarrow>
   failedWith ''Failed to fetch invoices'' (st, fs) (fetchInvoices (Some uid) (st, fs))"
  using getDocs_invoices_store[of uid fs]
  by (auto simp: fetchInvoices_def failedWith_def listState_def notify_def Let_def
      split: prod.splits sum.splits)

lemma fetchClients_fails:
  "fst (getDocs_clients uid fs) = Inl e \<Longrightarrow>
   failedWith ''Failed to fetch clients'' (st, fs) (fetchClients (Some uid) (st, fs))"
  using getDocs_clients_store[of uid fs]
  by (auto simp: fetchClients_def failedWith_def listState_def notify_def Let_def
      split: prod.splits sum.splits)

lemma handleSubmit_create_fails:
  "ip_editingInvoice st = None \<Longrightarrow>
   fst (addDoc_invoices (invoiceData uid values now st) fs) = Inl e \<Longrightarrow>
   failedWith ''Failed to save invoice'' (st, fs) (handleSubmit (Some uid) values now (st, fs))"
  using rejected_store(1)[of "invoiceData uid values now st" fs e]
  by (auto simp: handleSubmit_def failedWith_def listState_def notify_def Let_def
      invoiceData_isLoading split: prod.splits sum.splits)

lemma handleSubmit_update_fails:
  "ip_editingInvoice st = Some editing \<Longrightarrow> inv_userId editing = uid \<Longrightarrow>
   fst (updateDoc_invoices (inv_id editing) (\<lambda>old. invoiceData uid values now st) fs) = Inl e \<Longrightarrow>
   failedWith ''Failed to save invoice'' (st, fs) (handleSubmit (Some uid) values now (st, fs))"
  using rejected_store(2)[of "inv_id editing" "\<lambda>old. invoiceData uid values now st" fs e]
  by (auto simp: handleSubmit_def failedWith_def listState_def notify_def Let_def
      invoiceData_isLoading split: prod.splits sum.splits)

lemma handleDelete_fails:
  "inv_userId invoice = uid \<Longrightarrow> fst (deleteDoc_invoices (inv_id invoice) fs) = Inl e \<Longrightarrow>
   failedWith ''Failed to delete invoice'' (st, fs) (handleDelete (Some uid) invoice (st, fs))"
  using rejected_store(3)[of "inv_id invoice" fs e]
  by (auto simp: handleDelete_def failedWith_def listState_def notify_def
      split: prod.splits sum.splits)

lemma handleStatusUpdate_fails:
  "inv_userId invoice = uid \<Longrightarrow>
   fst (updateDoc_invoices (inv_id invoice) (\<lambda>old. old\<lparr> d_status := newStatus \<rparr>) fs) = Inl e \<Longrightarrow>
   failedWith ''Failed to update status'' (st, fs)
     (handleStatusUpdate (Some uid) invoice newStatus (st, fs))"
  using rejected_store(2)[of "inv_id invoice" "\<lambda>old. old\<lparr> d_status := newStatus \<rparr>" fs e]
  by (auto simp: handleStatusUpdate_def failedWith_def listState_def notify_def
      split: prod.splits sum.splits)

text \<open>
  C7. When the remote call of a handler of the invoices page is rejected (or, in
  \<open>fetchInvoices\<close>, reading a fetched document throws), the handler still returns: it
  shows its error notification and leaves \<open>invoices\<close>, \<open>clients\<close> and
  \<open>filteredInvoices\<close> as they were; the remote collections are unchanged too. A
  scripted fault makes every remote call fail in this way.
\<close>

theorem C7_error_atomicity:
  "(fst (getDocs_invoices uid fs) = Inl e \<longrightarrow>
      failedWith ''Failed to fetch invoices'' (st, fs) (fetchInvoices (Some uid) (st, fs))) \<and>
   (\<forall>docs. fst (getDocs_invoices uid fs) = Inr docs \<and> toInvoices docs = Inl e \<longrightarrow>
      failedWith ''Failed to fetch invoices'' (st, fs) (fetchInvoices (Some uid) (st, fs))) \<and>
   (fst (getDocs_clients uid fs) = Inl e \<longrightarrow>
      failedWith ''Failed to fetch clients'' (st, fs) (fetchClients (Some uid) (st, fs))) \<and>
   (ip_editingInvoice st = None \<and>
    fst (addDoc_invoices (invoiceData uid values now st) fs) = Inl e \<longrightarrow>
      failedWith ''Failed to save invoice'' (st, fs) (handleSubmit (Some uid) values now (st, fs))) \<and>
   (\<forall>editing. ip_editingInvoice st = Some editing \<and> inv_userId editing = uid \<and>
      fst (updateDoc_invoices (inv_id editing) (\<lambda>old. invoiceData uid values now st) fs) = Inl e \<longrightarrow>
      failedWith ''Failed to save invoice'' (st, fs) (handleSubmit (Some uid) values now (st, fs))) \<and>
   (inv_userId invoice = uid \<and> fst (deleteDoc_invoices (inv_id invoice) fs) = Inl e \<longrightarrow>
      failedWith ''Failed to delete invoice'' (st, fs) (handleDelete (Some uid) invoice (st, fs))) \<and>
   (inv_userId invoice = uid \<and>
    fst (updateDoc_invoices (inv_id invoice) (\<lambda>old. old\<lparr> d_status := newStatus \<rparr>) fs) = Inl e \<longrightarrow>
      failedWith ''Failed to update status'' (st, fs)
        (handleStatusUpdate (Some uid) invoice newStatus (st, fs))) \<and>
   (\<forall>rest. fs_faults fs = True # rest \<longrightarrow>
      fst (getDocs_invoices uid fs) = Inl FirebaseError \<and>
      fst (getDocs_clients uid fs) = Inl FirebaseError \<and>
      fst (addDoc_invoices data fs) = Inl FirebaseError \<and>
      fst (updateDoc_invoices docId change fs) = Inl FirebaseError \<and>
      fst (deleteDoc_invoices docId fs) = Inl FirebaseError)"
proof (intro conjI allI impI)
  show "failedWith ''Failed to fetch invoices'' (st, fs) (fetchInvoices (Some uid) (st, fs))"
    if "fst (getDocs_invoices uid fs) = Inl e"
    using that by (intro fetchInvoices_fails[where e = e]) simp
  show "failedWith ''Failed to fetch invoices'' (st, fs) (fetchInvoices (Some uid) (st, fs))"
    if "fst (getDocs_invoices uid fs) = Inr docs \<and> toInvoices docs = Inl e" for docs
    using that by (intro fetchInvoices_fails[where e = e]) simp
  show "failedWith ''Failed to fetch clients'' (st, fs) (fetchClients (Some uid) (st, fs))"
    if "fst (getDocs_clients uid fs) = Inl e"
    using that by (rule fetchClients_fails)
  show "failedWith ''Failed to save invoice'' (st, fs) (handleSubmit (Some uid) values now (st, fs))"
    if "ip_editingInvoice st = None \<and>
        fst (addDoc_invoices (invoiceData uid values now st) fs) = Inl e"
    using that by (intro handleSubmit_create_fails[where e = e]) simp_all
  show "failedWith ''Failed to save invoice'' (st, fs) (handleSubmit (Some uid) values now (st, fs))"
    if "ip_editingInvoice st = Some editing \<and> inv_userId editing = uid \<and>
        fst (updateDoc_invoices (inv_id editing) (\<lambda>old. invoiceData uid values now st) fs) = Inl e"
    for editing
    using that by (intro handleSubmit_update_fails[where e = e and editing = editing]) simp_all
  show "failedWith ''Failed to delete invoice'' (st, fs) (handleDelete (Some uid) invoice (st, fs))"
    if "inv_userId invoice = uid \<and> fst (deleteDoc_invoices (inv_id invoice) fs) = Inl e"
    using that by (intro handleDelete_fails[where e = e]) simp_all
  show "failedWith ''Failed to update status'' (st, fs)
        (handleStatusUpdate (Some uid) invoice newStatus (st, fs))"
    if "inv_userId invoice = uid \<and>
        fst (updateDoc_invoices (inv_id invoice) (\<lambda>old. old\<lparr> d_status := newStatus \<rparr>) fs) = Inl e"
    using that by (intro handleStatusUpdate_fails[where e = e]) simp_all
next
  fix rest assume f: "fs_faults fs = True # rest"
  then have n: "nextFault fs = (True, fs\<lparr> fs_faults := rest \<rparr>)" by (simp add: nextFault_def)
  show "fst (getDocs_invoices uid fs) = Inl FirebaseError"
    by (simp add: getDocs_invoices_def n)
  show "fst (getDocs_clients uid fs) = Inl FirebaseError"
    by (simp add: getDocs_clients_def n)
  show "fst (addDoc_invoices data fs) = Inl FirebaseError"
    by (simp add: addDoc_invoices_def n)
  show "fst (updateDoc_invoices docId change fs) = Inl FirebaseError"
    by (simp add: updateDoc_invoices_def n)
  show "fst (deleteDoc_invoices docId fs) = Inl FirebaseError"
    by (simp add: deleteDoc_invoices_def n)
qed

theorem C7_error_atomicity_witness:
  "failedWith ''Failed to fetch invoices'' (samplePage, sampleStore\<lparr> fs_faults := [True] \<rparr>)
     (fetchInvoices (Some ''u1'') (samplePage, sampleStore\<lparr> fs_faults := [True] \<rparr>)) \<and>
   failedWith ''Failed to fetch clients'' (samplePage, sampleStore\<lparr> fs_faults := [True] \<rparr>)
     (fetchClients (Some ''u1'') (samplePage, sampleStore\<lparr> fs_faults := [True] \<rparr>)) \<and>
   failedWith ''Failed to save invoice'' (samplePage, sampleStore\<lparr> fs_faults := [True] \<rparr>)
     (handleSubmit (Some ''u1'') sampleValues 500 (samplePage, sampleStore\<lparr> fs_faults := [True] \<rparr>)) \<and>
   failedWith ''Failed to delete invoice'' (samplePage, sampleStore\<lparr> fs_faults := [True] \<rparr>)
     (handleDelete (Some ''u1'') (invoiceNumbered ''INV-0001'')
        (samplePage, sampleStore\<lparr> fs_faults := [True] \<rparr>)) \<and>
   failedWith ''Failed to update status'' (samplePage, sampleStore\<lparr> fs_faults := [True] \<rparr>)
     (handleStatusUpdate (Some ''u1'') (invoiceNumbered ''INV-0001'') ''Paid''
        (samplePage, sampleStore\<lparr> fs_faults := [True] \<rparr>)) \<and>
   ip_messages (fst (fetchInvoices (Some ''u1'') (samplePage, sampleStore\<lparr> fs_faults := [True] \<rparr>)))
     = [MsgError ''Failed to fetch invoices'']"
proof -
  let ?fs = "sampleStore\<lparr> fs_faults := [True] \<rparr>"
  let ?i = "invoiceNumbered ''INV-0001''"
  have script: "fs_faults ?fs = True # []" by simp
  have editing: "ip_editingInvoice samplePage = None" by (simp add: samplePage_def)
  have owner: "inv_userId ?i = ''u1''" by (simp add: invoiceNumbered_def)
  note all = C7_error_atomicity [of "''u1''" ?fs FirebaseError samplePage sampleValues 500 ?i "''Paid''"]
  note rejected = all [THEN conjunct2, THEN conjunct2, THEN conjunct2, THEN conjunct2,
      THEN conjunct2, THEN conjunct2, THEN conjunct2, THEN spec, THEN mp, OF script]
  have 1: "failedWith ''Failed to fetch invoices'' (samplePage, ?fs)
      (fetchInvoices (Some ''u1'') (samplePage, ?fs))"
    using all [THEN conjunct1] rejected by simp
  have 2: "failedWith ''Failed to fetch clients'' (samplePage, ?fs)
      (fetchClients (Some ''u1'') (samplePage, ?fs))"
    using all [THEN conjunct2, THEN conjunct2, THEN conjunct1] rejected by simp
  have 3: "failedWith ''Failed to save invoice'' (samplePage, ?fs)
      (handleSubmit (Some ''u1'') sampleValues 500 (samplePage, ?fs))"
    using all [THEN conjunct2, THEN conjunct2, THEN conjunct2, THEN conjunct1] rejected editing
    by simp
  have 4: "failedWith ''Failed to delete invoice'' (samplePage, ?fs)
      (handleDelete (Some ''u1'') ?i (samplePage, ?fs))"
    using all [THEN conjunct2, THEN conjunct2, THEN conjunct2, THEN conjunct2, THEN conjunct2,
        THEN conjunct1] rejected owner by simp
  have 5: "failedWith ''Failed to update status'' (samplePage, ?fs)
      (handleStatusUpdate (Some ''u1'') ?i ''Paid'' (samplePage, ?fs))"
    using all [THEN conjunct2, THEN conjunct2, THEN conjunct2, THEN conjunct2, THEN conjunct2,
        THEN conjunct2, THEN conjunct1] rejected owner by simp
  from 1 have "ip_messages (fst (fetchInvoices (Some ''u1'') (samplePage, ?fs)))
     = [MsgError ''Failed to fetch invoices'']"
    by (simp add: failedWith_def samplePage_def)
  with 1 2 3 4 5 show ?thesis by simp
qed

subsection \<open>What a submit stores\<close>

lemma fetchInvoices_store:
  "fs_invoices (snd (fetchInvoices user s)) = fs_invoices (snd s)"
proof (cases user)
  case None
  then show ?thesis by (simp add: fetchInvoices_def)
next
  case (Some uid)
  obtain q fs1 where g: "getDocs_invoices uid (snd s) = (q, fs1)"
    by (cases "getDocs_invoices uid (snd s)")
  with getDocs_invoices_store(1)[of uid "snd s"] have "fs_invoices fs1 = fs_invoices (snd s)"
    by simp
  then show ?thesis by (simp add: fetchInvoices_def Let_def g Some split: sum.splits)
qed

lemma set_obj_modify_const:
  "(k', v') \<in> set (obj_modify obj k (\<lambda>old. v)) \<Longrightarrow> (k', v') \<in> set obj \<or> v' = v"
  by (induction obj) (auto split: if_splits)

lemma updateDoc_written:
  "(k, v) \<in> set (fs_invoices (snd (updateDoc_invoices docId (\<lambda>old. data) fs))) \<Longrightarrow>
   (k, v) \<in> set (fs_invoices fs) \<or> v = data"
  using nextFault_collections(1)[of fs]
  by (auto simp: updateDoc_invoices_def Let_def split: prod.splits if_splits
      dest: set_obj_modify_const)

lemma addDoc_written:
  "(k, v) \<in> set (fs_invoices (snd (addDoc_invoices data fs))) \<Longrightarrow>
   (k, v) \<in> set (fs_invoices fs) \<or> v = data"
  using nextFault_collections(1)[of fs]
  by (auto simp: addDoc_invoices_def Let_def split: prod.splits if_splits)

lemma handleSubmit_written:
  assumes "(k, v) \<in> set (fs_invoices (snd (handleSubmit user values now (st, fs))))"
  shows "(k, v) \<in> set (fs_invoices fs) \<or> (\<exists>uid. user = Some uid \<and> v = invoiceData uid values now st)"
proof (cases user)
  case None
  with assms show ?thesis by (simp add: handleSubmit_def)
next
  case (Some uid)
  note u = this
  show ?thesis
  proof (cases "ip_editingInvoice st")
    case None
    obtain r fs1 where a: "addDoc_invoices (invoiceData uid values now st) fs = (r, fs1)"
      by (cases "addDoc_invoices (invoiceData uid values now st) fs")
    have "fs_invoices (snd (handleSubmit user values now (st, fs))) = fs_invoices fs1"
      using fetchInvoices_store[of user]
      by (cases r)
         (simp_all add: handleSubmit_def Let_def u None invoiceData_isLoading a
            split: prod.splits, (metis snd_conv)+)
    with assms a addDoc_written[of k v "invoiceData uid values now st" fs] u show ?thesis by simp
  next
    case (Some editing)
    note ed = this
    obtain r fs1 where a:
      "updateDoc_invoices (inv_id editing) (\<lambda>old. invoiceData uid values now st) fs = (r, fs1)"
      by (cases "updateDoc_invoices (inv_id editing) (\<lambda>old. invoiceData uid values now st) fs")
    show ?thesis
    proof (cases "inv_userId editing = uid")
      case False
      with assms u ed show ?thesis by (simp add: handleSubmit_def Let_def)
    next
      case True
      have "fs_invoices (snd (handleSubmit user values now (st, fs))) = fs_invoices fs1"
        using fetchInvoices_store[of user]
        by (cases r)
           (simp_all add: handleSubmit_def Let_def u ed True invoiceData_isLoading a
              split: prod.splits, (metis snd_conv)+)
      with assms a updateDoc_written[of k v "inv_id editing" "invoiceData uid values now st" fs] u
      show ?thesis by simp
    qed
  qed
qed

lemma handleSubmit_create_store:
  assumes "ip_editingInvoice st = None"
    and a: "addDoc_invoices (invoiceData uid values now st) fs = (r, fs1)"
  shows "fs_invoices (snd (handleSubmit (Some uid) values now (st, fs))) = fs_invoices fs1"
  using fetchInvoices_store[of "Some uid"]
  by (cases r)
     (simp_all add: handleSubmit_def Let_def assms(1) invoiceData_isLoading a
        split: prod.splits, (metis snd_conv)+)

lemma addDoc_invoices_accepted:
  "fs_faults fs = [] \<Longrightarrow>
   addDoc_invoices data fs
     = (Inr (''auto'' @ decimal (fs_autoId fs)),
        fs\<lparr> fs_invoices := fs_invoices fs @ [(''auto'' @ decimal (fs_autoId fs), data)],
            fs_autoId := fs_autoId fs + 1 \<rparr>)"
  by (simp add: addDoc_invoices_def nextFault_def Let_def)

lemma handleSubmit_creates:
  assumes "ip_editingInvoice st = None" "fs_faults fs = []"
  shows "fs_invoices (snd (handleSubmit (Some uid) values now (st, fs)))
           = fs_invoices fs @ [(''auto'' @ decimal (fs_autoId fs), invoiceData uid values now st)]"
  by (simp add: handleSubmit_create_store[OF assms(1) addDoc_invoices_accepted[OF assms(2)]])

lemma invoiceData_items:
  "d_items (invoiceData uid values now st) = map lineItem (fv_items values)"
  "d_total (invoiceData uid values now st)
     = sum_list (map item_amount (d_items (invoiceData uid values now st)))"
  by (simp_all add: invoiceData_def Let_def foldl_plus)

text \<open>
  C8. Whatever document \<open>handleSubmit\<close> writes to the collection \<open>invoices\<close> (a
  document that is there afterwards and was not there before) has the line items of the
  form, each with its amount equal to quantity times rate, and a total equal to the sum
  of these amounts; so the total is determined by the quantities and rates.
\<close>

theorem C8_invoice_totals:
  assumes "(docId, d) \<in> set (fs_invoices (snd (handleSubmit user values now (st, fs))))"
    and "(docId, d) \<notin> set (fs_invoices fs)"
  shows "map (\<lambda>i. (item_description i, item_quantity i, item_rate i)) (d_items d)
           = map (\<lambda>f. (fi_description f, fi_quantity f, fi_rate f)) (fv_items values) \<and>
         list_all (\<lambda>i. item_amount i = item_quantity i * item_rate i) (d_items d) \<and>
         d_total d = sum_list (map item_amount (d_items d)) \<and>
         d_total d = sum_list (map (\<lambda>f. fi_quantity f * fi_rate f) (fv_items values))"
proof -
  from handleSubmit_written[OF assms(1)] assms(2)
  obtain uid where d: "d = invoiceData uid values now st" by auto
  have items: "d_items d = map lineItem (fv_items values)"
    and total: "d_total d = sum_list (map item_amount (d_items d))"
    unfolding d by (rule invoiceData_items)+
  have "map (\<lambda>i. (item_description i, item_quantity i, item_rate i)) (d_items d)
           = map (\<lambda>f. (fi_description f, fi_quantity f, fi_rate f)) (fv_items values)"
    by (simp add: items lineItem_def)
  moreover have "list_all (\<lambda>i. item_amount i = item_quantity i * item_rate i) (d_items d)"
    by (simp add: items list_all_iff lineItem_def)
  moreover have "d_total d = sum_list (map (\<lambda>f. fi_quantity f * fi_rate f) (fv_items values))"
    by (simp add: total items lineItem_def comp_def)
  ultimately show ?thesis using total by simp
qed

theorem C8_invoice_totals_witness:
  "fs_invoices (snd (handleSubmit (Some ''u1'') sampleValues 500 (samplePage, sampleStore)))
     = [(''auto0'', invoiceData ''u1'' sampleValues 500 samplePage)] \<and>
   map item_amount (d_items (invoiceData ''u1'' sampleValues 500 samplePage)) = [120, 15] \<and>
   d_total (invoiceData ''u1'' sampleValues 500 samplePage) = 135"
proof -
  let ?d = "invoiceData ''u1'' sampleValues 500 samplePage"
  let ?after = "fs_invoices (snd (handleSubmit (Some ''u1'') sampleValues 500 (samplePage, sampleStore)))"
  have e: "ip_editingInvoice samplePage = None" by (simp add: samplePage_def)
  have f: "fs_faults sampleStore = []" by (simp add: sampleStore_def)
  have z: "decimal 0 = ''0''" by (simp add: decimal.simps digit_char_def)
  have stored: "?after = [(''auto0'', ?d)]"
    unfolding handleSubmit_creates[OF e f] by (simp add: sampleStore_def z)
  then have new: "(''auto0'', ?d) \<in> set ?after" by simp
  have fresh: "(''auto0'', ?d) \<notin> set (fs_invoices sampleStore)" by (simp add: sampleStore_def)
  note facts = C8_invoice_totals [OF new fresh]
  from facts have "d_total ?d = sum_list (map (\<lambda>f. fi_quantity f * fi_rate f) (fv_items sampleValues))"
    by (elim conjE)
  then have total: "d_total ?d = 135" by (simp add: sampleValues_def)
  have "map item_amount (d_items ?d) = [120, 15]"
    by (simp add: invoiceData_items(1) lineItem_def sampleValues_def)
  with stored total show ?thesis by (intro conjI)
qed

section \<open>Properties of the time-tracking page\<close>

lemma nextTimeFault_collections:
  "ts_timeTracking (snd (nextTimeFault fs)) = ts_timeTracking fs"
  "ts_clients (snd (nextTimeFault fs)) = ts_clients fs"
  "ts_tasks (snd (nextTimeFault fs)) = ts_tasks fs"
  "ts_autoId (snd (nextTimeFault fs)) = ts_autoId fs"
  by (simp_all add: nextTimeFault_def split: list.splits)

lemma fetchTimeEntries_store:
  "ts_timeTracking (snd (fetchTimeEntries user s)) = ts_timeTracking (snd s)"
proof (cases user)
  case None
  then show ?thesis by (simp add: fetchTimeEntries_def)
next
  case (Some uid)
  obtain fault fs1 where n: "nextTimeFault (snd s) = (fault, fs1)"
    by (cases "nextTimeFault (snd s)")
  with nextTimeFault_collections(1)[of "snd s"] have "ts_timeTracking fs1 = ts_timeTracking (snd s)"
    by simp
  then show ?thesis by (simp add: fetchTimeEntries_def Let_def n Some)
qed

lemma fetchTimeEntries_messages:
  "\<exists>more. tp_messages (fst (fetchTimeEntries user s)) = tp_messages (fst s) @ more"
proof (cases user)
  case None
  then show ?thesis by (simp add: fetchTimeEntries_def notifyTime_def)
next
  case (Some uid)
  obtain fault fs1 where n: "nextTimeFault (snd s) = (fault, fs1)"
    by (cases "nextTimeFault (snd s)")
  show ?thesis by (simp add: fetchTimeEntries_def Let_def n Some notifyTime_def)
qed

text \<open>Whether the store accepts the \<open>addDoc\<close> of \<open>handleAddEntry\<close>.\<close>

lemma addDoc_timeTracking_cases:
  "addDoc_timeTracking data fs =
     (if fst (nextTimeFault fs) \<or> tt_userId data = None
      then (Inl FirebaseError, snd (nextTimeFault fs))
      else (Inr (''auto'' @ decimal (ts_autoId fs)),
            (snd (nextTimeFault fs))
              \<lparr> ts_timeTracking := ts_timeTracking fs @ [(''auto'' @ decimal (ts_autoId fs), data)],
                 ts_autoId := ts_autoId fs + 1 \<rparr>))"
  using nextTimeFault_collections[of fs]
  by (cases "nextTimeFault fs") (simp add: addDoc_timeTracking_def Let_def)

lemma handleAddEntry_invalid:
  "durationMinutes values \<le> 0 \<Longrightarrow>
   handleAddEntry user values now (st, fs)
     = (notifyTime (MsgError ''End time must be after start time'') st, fs)"
  by (simp add: handleAddEntry_def)

lemma handleAddEntry_rejected:
  assumes "0 < durationMinutes values" "fst (nextTimeFault fs) \<or> user = None"
  shows "handleAddEntry user values now (st, fs)
     = (notifyTime (MsgError ''Failed to add entry'') st, snd (nextTimeFault fs))"
  using assms by (simp add: handleAddEntry_def addDoc_timeTracking_cases newEntry_def)

lemma handleAddEntry_accepted:
  assumes "0 < durationMinutes values" "\<not> fst (nextTimeFault fs)" "user \<noteq> None"
  shows "handleAddEntry user values now (st, fs)
     = fetchTimeEntries user
         ((notifyTime (MsgSuccess ''Entry added successfully'') st)\<lparr> tp_modalVisible := False \<rparr>,
          (snd (nextTimeFault fs))
            \<lparr> ts_timeTracking := ts_timeTracking fs
                 @ [(''auto'' @ decimal (ts_autoId fs), newEntry user values now)],
               ts_autoId := ts_autoId fs + 1 \<rparr>)"
proof -
  from assms(3) obtain uid where "user = Some uid" by auto
  then have "tt_userId (newEntry user values now) = Some uid" by (simp add: newEntry_def)
  with assms(1,2) show ?thesis by (simp add: handleAddEntry_def addDoc_timeTracking_cases)
qed

text \<open>
  C10 (as amended). \<open>handleAddEntry\<close> adds exactly one document to \<open>timeTracking\<close>
  when the floored whole-minute difference of end and start is strictly positive and
  the store accepts the \<open>addDoc\<close> call, and no document otherwise. When the duration is
  not positive it reports \<open>End time must be after start time\<close> without calling the
  store; when the call is rejected it reports \<open>Failed to add entry\<close>. The document that
  is added stores that floored difference as its duration.
\<close>

theorem C10_handleAddEntry:
  "ts_timeTracking (snd (handleAddEntry user values now (st, fs)))
     = ts_timeTracking fs @
         (if 0 < (ev_endTime values - ev_startTime values) div 60000 \<and>
             \<not> fst (nextTimeFault fs) \<and> user \<noteq> None
          then [(''auto'' @ decimal (ts_autoId fs), newEntry user values now)]
          else []) \<and>
   tt_duration (newEntry user values now)
     = Some ((ev_endTime values - ev_startTime values) div 60000) \<and>
   (\<not> 0 < (ev_endTime values - ev_startTime values) div 60000 \<longrightarrow>
      handleAddEntry user values now (st, fs)
        = (notifyTime (MsgError ''End time must be after start time'') st, fs)) \<and>
   (0 < (ev_endTime values - ev_startTime values) div 60000 \<and>
    (fst (nextTimeFault fs) \<or> user = None) \<longrightarrow>
      tp_messages (fst (handleAddEntry user values now (st, fs)))
        = tp_messages st @ [MsgError ''Failed to add entry'']) \<and>
   (0 < (ev_endTime values - ev_startTime values) div 60000 \<and>
    \<not> fst (nextTimeFault fs) \<and> user \<noteq> None \<longrightarrow>
      (\<exists>more. tp_messages (fst (handleAddEntry user values now (st, fs)))
         = tp_messages st @ MsgSuccess ''Entry added successfully'' # more))"
proof (intro conjI impI)
  let ?d = "(ev_endTime values - ev_startTime values) div 60000"
  let ?r = "handleAddEntry user values now (st, fs)"
  have d: "durationMinutes values = ?d" by (simp add: durationMinutes_def)
  show "tt_duration (newEntry user values now) = Some ?d"
    by (simp add: newEntry_def d)
  show "?r = (notifyTime (MsgError ''End time must be after start time'') st, fs)" if "\<not> 0 < ?d"
    using that by (intro handleAddEntry_invalid) (simp add: d)
  show "tp_messages (fst ?r) = tp_messages st @ [MsgError ''Failed to add entry'']"
    if "0 < ?d \<and> (fst (nextTimeFault fs) \<or> user = None)"
  proof -
    from that have "0 < durationMinutes values" "fst (nextTimeFault fs) \<or> user = None"
      by (simp_all add: d)
    from handleAddEntry_rejected[OF this] show ?thesis by (simp add: notifyTime_def)
  qed
  let ?s2 = "((notifyTime (MsgSuccess ''Entry added successfully'') st)\<lparr> tp_modalVisible := False \<rparr>,
      (snd (nextTimeFault fs))
        \<lparr> ts_timeTracking := ts_timeTracking fs
             @ [(''auto'' @ decimal (ts_autoId fs), newEntry user values now)],
           ts_autoId := ts_autoId fs + 1 \<rparr>)"
  have accepted: "?r = fetchTimeEntries user ?s2"
    if "0 < ?d \<and> \<not> fst (nextTimeFault fs) \<and> user \<noteq> None"
    using that by (intro handleAddEntry_accepted) (simp_all add: d)
  show "\<exists>more. tp_messages (fst ?r) = tp_messages st @ MsgSuccess ''Entry added successfully'' # more"
    if a: "0 < ?d \<and> \<not> fst (nextTimeFault fs) \<and> user \<noteq> None"
  proof -
    from fetchTimeEntries_messages[of user ?s2] obtain more where
      "tp_messages (fst (fetchTimeEntries user ?s2)) = tp_messages (fst ?s2) @ more" by blast
    then have "tp_messages (fst ?r) = tp_messages st @ MsgSuccess ''Entry added successfully'' # more"
      by (simp add: accepted[OF a] notifyTime_def)
    then show ?thesis by blast
  qed
  show "ts_timeTracking (snd ?r)
     = ts_timeTracking fs @
         (if 0 < ?d \<and> \<not> fst (nextTimeFault fs) \<and> user \<noteq> None
          then [(''auto'' @ decimal (ts_autoId fs), newEntry user values now)]
          else [])"
  proof (cases "0 < ?d \<and> \<not> fst (nextTimeFault fs) \<and> user \<noteq> None")
    case True
    have "ts_timeTracking (snd ?r)
        = ts_timeTracking fs @ [(''auto'' @ decimal (ts_autoId fs), newEntry user values now)]"
      by (simp add: accepted[OF True] fetchTimeEntries_store)
    with True show ?thesis by simp
  next
    case False
    have "ts_timeTracking (snd ?r) = ts_timeTracking fs"
    proof (cases "0 < ?d")
      case False
      then have "durationMinutes values \<le> 0" by (simp add: d)
      from handleAddEntry_invalid[OF this] show ?thesis by simp
    next
      case True
      with False have "0 < durationMinutes values" "fst (nextTimeFault fs) \<or> user = None"
        by (auto simp: d)
      from handleAddEntry_rejected[OF this] show ?thesis
        by (simp add: nextTimeFault_collections)
    qed
    with False show ?thesis by simp
  qed
qed

theorem C10_handleAddEntry_witness:
  "ts_timeTracking (snd (handleAddEntry (Some ''u1'') twoMinutes 500 (emptyTimePage, twoUserStore)))
     = [(''auto0'', newEntry (Some ''u1'') twoMinutes 500)] \<and>
   tt_duration (newEntry (Some ''u1'') twoMinutes 500) = Some 2 \<and>
   handleAddEntry (Some ''u1'') (twoMinutes\<lparr> ev_endTime := 0 \<rparr>) 500 (emptyTimePage, twoUserStore)
     = (notifyTime (MsgError ''End time must be after start time'') emptyTimePage, twoUserStore) \<and>
   tp_messages (fst (handleAddEntry (Some ''u1'') twoMinutes 500
       (emptyTimePage, twoUserStore\<lparr> ts_faults := [True] \<rparr>)))
     = [MsgError ''Failed to add entry'']"
proof -
  have pos: "0 < (ev_endTime twoMinutes - ev_startTime twoMinutes) div 60000"
    by (simp add: twoMinutes_def)
  have two: "(ev_endTime twoMinutes - ev_startTime twoMinutes) div 60000 = 2"
    by (simp add: twoMinutes_def)
  have ok: "\<not> fst (nextTimeFault twoUserStore)"
    by (simp add: nextTimeFault_def twoUserStore_def)
  have bad: "fst (nextTimeFault (twoUserStore\<lparr> ts_faults := [True] \<rparr>))"
    by (simp add: nextTimeFault_def)
  have z: "decimal 0 = ''0''" by (simp add: decimal.simps digit_char_def)
  note good = C10_handleAddEntry [of "Some ''u1''" twoMinutes 500 emptyTimePage twoUserStore]
  note invalid = C10_handleAddEntry [of "Some ''u1''" "twoMinutes\<lparr> ev_endTime := 0 \<rparr>" 500
      emptyTimePage twoUserStore]
  note rejected = C10_handleAddEntry [of "Some ''u1''" twoMinutes 500 emptyTimePage
      "twoUserStore\<lparr> ts_faults := [True] \<rparr>"]
  from good pos ok
  have 1: "ts_timeTracking (snd (handleAddEntry (Some ''u1'') twoMinutes 500 (emptyTimePage, twoUserStore)))
     = [(''auto0'', newEntry (Some ''u1'') twoMinutes 500)]"
    by (simp add: twoUserStore_def z)
  from good two have 2: "tt_duration (newEntry (Some ''u1'') twoMinutes 500) = Some 2" by simp
  have "\<not> 0 < (ev_endTime (twoMinutes\<lparr> ev_endTime := 0 \<rparr>)
            - ev_startTime (twoMinutes\<lparr> ev_endTime := 0 \<rparr>)) div 60000"
    by (simp add: twoMinutes_def)
  with invalid
  have 3: "handleAddEntry (Some ''u1'') (twoMinutes\<lparr> ev_endTime := 0 \<rparr>) 500 (emptyTimePage, twoUserStore)
     = (notifyTime (MsgError ''End time must be after start time'') emptyTimePage, twoUserStore)"
    by blast
  from rejected pos bad
  have 4: "tp_messages (fst (handleAddEntry (Some ''u1'') twoMinutes 500
       (emptyTimePage, twoUserStore\<lparr> ts_faults := [True] \<rparr>)))
     = [MsgError ''Failed to add entry'']"
    by (simp add: emptyTimePage_def)
  from 1 2 3 4 show ?thesis by (intro conjI)
qed

text \<open>
  The claim as written fails when the store rejects the call: the duration is two
  minutes, yet no document is created.
\<close>

theorem C10_rejected_call_counterexample:
  "0 < (ev_endTime twoMinutes - ev_startTime twoMinutes) div 60000 \<and>
   ts_timeTracking (snd (handleAddEntry (Some ''u1'') twoMinutes 500
       (emptyTimePage, twoUserStore\<lparr> ts_faults := [True] \<rparr>))) = [] \<and>
   tp_messages (fst (handleAddEntry (Some ''u1'') twoMinutes 500
       (emptyTimePage, twoUserStore\<lparr> ts_faults := [True] \<rparr>))) = [MsgError ''Failed to add entry'']"
proof -
  have pos: "0 < durationMinutes twoMinutes" by (simp add: durationMinutes_def twoMinutes_def)
  have bad: "fst (nextTimeFault (twoUserStore\<lparr> ts_faults := [True] \<rparr>)) \<or> Some ''u1'' = None"
    by (simp add: nextTimeFault_def)
  from handleAddEntry_rejected[OF pos bad, of 500 emptyTimePage] show ?thesis
    by (simp add: twoMinutes_def notifyTime_def emptyTimePage_def nextTimeFault_def
        twoUserStore_def)
qed

subsection \<open>Which documents a fetch shows\<close>

text \<open>The sibling fetches do filter by the current user.\<close>

lemma fetchClients_own_documents:
  "fs_faults fs = [] \<Longrightarrow>
   ip_clients (fst (fetchClients (Some uid) (st, fs)))
     = map toClient (filter (\<lambda>doc. cd_userId (snd doc) = uid) (fs_clients fs))"
  by (simp add: fetchClients_def getDocs_clients_def nextFault_def)

lemma fetchTimeEntries_own_documents:
  "ts_faults fs = [] \<Longrightarrow>
   list_all (\<lambda>entry. en_userId entry = Some uid)
     (tp_timeEntries (fst (fetchTimeEntries (Some uid) (st, fs))))"
  by (auto simp: fetchTimeEntries_def nextTimeFault_def list_all_iff toEntry_def Let_def)

text \<open>
  The fetches of the time-tracking page do not: whoever is signed in, every client and
  every task of the collection is shown.
\<close>

lemma trackFetch_all_documents:
  "ts_faults fs = [] \<Longrightarrow>
   map tc_id (tp_clients (fst (trackFetchClients (st, fs)))) = map fst (ts_clients fs) \<and>
   map tk_id (tp_tasks (fst (trackFetchTasks (st, fs)))) = map fst (ts_tasks fs)"
  by (simp add: trackFetchClients_def trackFetchTasks_def nextTimeFault_def comp_def)

text \<open>
  C1 fails on the code. With the clients and tasks of users \<open>u1\<close> and \<open>u2\<close> in the
  store, the time-tracking page shows both users' clients and tasks, and removing the
  client of \<open>u2\<close> changes what is shown.
\<close>

theorem C1_time_tracking_fetch_not_isolated:
  "map (tcd_userId \<circ> snd) (ts_clients twoUserStore) = [''u1'', ''u2''] \<and>
   tp_clients (fst (trackFetchClients (emptyTimePage, twoUserStore)))
     = [\<lparr> tc_id = ''c1'', tc_name = ''Acme'' \<rparr>, \<lparr> tc_id = ''c2'', tc_name = ''Globex'' \<rparr>] \<and>
   tp_tasks (fst (trackFetchTasks (emptyTimePage, twoUserStore)))
     = [\<lparr> tk_id = ''t1'', tk_title = ''Design'', tk_clientId = ''c1'' \<rparr>,
        \<lparr> tk_id = ''t2'', tk_title = ''Audit'', tk_clientId = ''c2'' \<rparr>] \<and>
   tp_clients (fst (trackFetchClients
       (emptyTimePage, twoUserStore\<lparr> ts_clients := [hd (ts_clients twoUserStore)] \<rparr>)))
     = [\<lparr> tc_id = ''c1'', tc_name = ''Acme'' \<rparr>]"
  by (simp add: trackFetchClients_def trackFetchTasks_def nextTimeFault_def twoUserStore_def
      emptyTimePage_def or_text_def)

section \<open>Properties of the dashboard\<close>






end
